theory Spec2Isabelle
  imports Complex_Main "HOL-Library.Sublist" "HOL-Library.Multiset"
begin

section \<open>Python values used by the chat backend\<close>

subsection \<open>Strings\<close>

text \<open>
  A Python \<open>str\<close> is a sequence of Unicode code points; \<open>len\<close>, slicing and
  \<open>strip\<close> all count code points. A string is therefore a list of code points, and
  \<open>py\<close> reads an ASCII literal of the source as such a list.
\<close>

type_synonym pystr = "nat list"

definition py :: "string \<Rightarrow> pystr" where
  "py s = map of_char s"

text \<open>
  The characters \<open>str.strip()\<close> removes when called without argument: the code points
  for which \<open>str.isspace\<close> holds.
\<close>

definition py_isspace :: "nat \<Rightarrow> bool" where
  "py_isspace c =
     ((9 \<le> c \<and> c \<le> 13) \<or> (28 \<le> c \<and> c \<le> 32) \<or> c = 133 \<or> c = 160 \<or> c = 5760
      \<or> (8192 \<le> c \<and> c \<le> 8202) \<or> c = 8232 \<or> c = 8233 \<or> c = 8239 \<or> c = 8287
      \<or> c = 12288)"

definition strip_where :: "(nat \<Rightarrow> bool) \<Rightarrow> pystr \<Rightarrow> pystr" where
  "strip_where P s = rev (dropWhile P (rev (dropWhile P s)))"

text \<open>\<open>s.strip()\<close>\<close>

definition py_strip :: "pystr \<Rightarrow> pystr" where
  "py_strip s = strip_where py_isspace s"

text \<open>\<open>s.strip(chars)\<close>: every leading and trailing character that occurs in \<open>chars\<close> goes.\<close>

definition py_strip_chars :: "pystr \<Rightarrow> pystr \<Rightarrow> pystr" where
  "py_strip_chars chars s = strip_where (\<lambda>c. c \<in> set chars) s"

text \<open>\<open>sub in s\<close> on two strings: \<open>sub\<close> occurs in \<open>s\<close> as a contiguous run.\<close>

fun str_contains :: "pystr \<Rightarrow> pystr \<Rightarrow> bool" where
  "str_contains sub [] = (sub = [])"
| "str_contains sub (c # s) = (prefix sub (c # s) \<or> str_contains sub s)"

subsection \<open>Exceptions\<close>

text \<open>
  The subclasses of \<open>Exception\<close> that the code can meet. \<open>TimeoutException\<close> is a
  subclass of httpx's \<open>RequestError\<close>; the constructor \<open>RequestError\<close> stands for
  every other transport-level error. \<open>HTTPStatusError\<close> (raised by
  \<open>raise_for_status\<close>) is not a \<open>RequestError\<close>. \<open>JSONDecodeError\<close> is a subclass of
  \<open>ValueError\<close>; the constructor \<open>ValueError\<close> stands for a \<open>ValueError\<close> that is not a
  \<open>JSONDecodeError\<close>. \<open>OtherException\<close> stands for any further subclass of \<open>Exception\<close>.
\<close>

datatype exn =
    TimeoutException
  | RequestError
  | HTTPStatusError
  | JSONDecodeError
  | KeyError
  | IndexError
  | TypeError
  | AttributeError
  | ValueError
  | RecursionError
  | OtherException

definition seq :: "'e + 'a \<Rightarrow> ('a \<Rightarrow> 'e + 'b) \<Rightarrow> 'e + 'b" where
  "seq m f = (case m of Inl e \<Rightarrow> Inl e | Inr x \<Rightarrow> f x)"

subsection \<open>Decoded JSON\<close>

text \<open>
  What \<open>json.loads\<close> and \<open>response.json()\<close> return. An object is kept as its list of
  members; a lookup finds the first member with the key. The code never looks at the
  value of a number, only at its type.
\<close>

datatype json =
    JNull
  | JBool bool
  | JNum int
  | JStr pystr
  | JArr "json list"
  | JObj "(pystr \<times> json) list"

text \<open>\<open>key in x\<close> for a string \<open>key\<close>.\<close>

fun py_contains :: "pystr \<Rightarrow> json \<Rightarrow> exn + bool" where
  "py_contains k (JObj kvs) = Inr (case map_of kvs k of None \<Rightarrow> False | Some v \<Rightarrow> True)"
| "py_contains k (JArr xs) = Inr (JStr k \<in> set xs)"
| "py_contains k (JStr s) = Inr (str_contains k s)"
| "py_contains k JNull = Inl TypeError"
| "py_contains k (JBool b) = Inl TypeError"
| "py_contains k (JNum n) = Inl TypeError"

text \<open>\<open>x[key]\<close> for a string \<open>key\<close>.\<close>

fun py_getitem :: "json \<Rightarrow> pystr \<Rightarrow> exn + json" where
  "py_getitem (JObj kvs) k = (case map_of kvs k of None \<Rightarrow> Inl KeyError | Some v \<Rightarrow> Inr v)"
| "py_getitem (JArr xs) k = Inl TypeError"
| "py_getitem (JStr s) k = Inl TypeError"
| "py_getitem JNull k = Inl TypeError"
| "py_getitem (JBool b) k = Inl TypeError"
| "py_getitem (JNum n) k = Inl TypeError"

text \<open>\<open>len(x)\<close>\<close>

fun py_len :: "json \<Rightarrow> exn + nat" where
  "py_len (JObj kvs) = Inr (length (remdups (map fst kvs)))"
| "py_len (JArr xs) = Inr (length xs)"
| "py_len (JStr s) = Inr (length s)"
| "py_len JNull = Inl TypeError"
| "py_len (JBool b) = Inl TypeError"
| "py_len (JNum n) = Inl TypeError"

text \<open>\<open>x[0]\<close>; the keys of a decoded object are strings, so \<open>0\<close> is never one of them.\<close>

fun py_getitem0 :: "json \<Rightarrow> exn + json" where
  "py_getitem0 (JArr []) = Inl IndexError"
| "py_getitem0 (JArr (x # xs)) = Inr x"
| "py_getitem0 (JStr []) = Inl IndexError"
| "py_getitem0 (JStr (c # s)) = Inr (JStr [c])"
| "py_getitem0 (JObj kvs) = Inl KeyError"
| "py_getitem0 JNull = Inl TypeError"
| "py_getitem0 (JBool b) = Inl TypeError"
| "py_getitem0 (JNum n) = Inl TypeError"

text \<open>\<open>x.get(key, default)\<close>: only a dict has the method.\<close>

fun py_get :: "json \<Rightarrow> pystr \<Rightarrow> json \<Rightarrow> exn + json" where
  "py_get (JObj kvs) k d = Inr (case map_of kvs k of None \<Rightarrow> d | Some v \<Rightarrow> v)"
| "py_get (JArr xs) k d = Inl AttributeError"
| "py_get (JStr s) k d = Inl AttributeError"
| "py_get JNull k d = Inl AttributeError"
| "py_get (JBool b) k d = Inl AttributeError"
| "py_get (JNum n) k d = Inl AttributeError"

text \<open>\<open>x.strip()\<close>: only a string has the method.\<close>

fun py_strip_method :: "json \<Rightarrow> exn + pystr" where
  "py_strip_method (JStr s) = Inr (py_strip s)"
| "py_strip_method (JArr xs) = Inl AttributeError"
| "py_strip_method (JObj kvs) = Inl AttributeError"
| "py_strip_method JNull = Inl AttributeError"
| "py_strip_method (JBool b) = Inl AttributeError"
| "py_strip_method (JNum n) = Inl AttributeError"

text \<open>\<open>acc += x\<close> for a string \<open>acc\<close>: only a string can be added to it.\<close>

fun py_iadd_str :: "pystr \<Rightarrow> json \<Rightarrow> exn + pystr" where
  "py_iadd_str acc (JStr s) = Inr (acc @ s)"
| "py_iadd_str acc (JArr xs) = Inl TypeError"
| "py_iadd_str acc (JObj kvs) = Inl TypeError"
| "py_iadd_str acc JNull = Inl TypeError"
| "py_iadd_str acc (JBool b) = Inl TypeError"
| "py_iadd_str acc (JNum n) = Inl TypeError"

section \<open>The stored data (app.models.user)\<close>

text \<open>
  Modelled from the spec: the ORM classes \<open>User\<close>, \<open>ChatSession\<close> and \<open>ChatMessage\<close> of
  \<open>app/models/user.py\<close>, which is not among the sources. The fields are those the spec's
  data model lists and the services and schemas read. Timestamps are readings of the
  store's clock.
\<close>

type_synonym timestamp = nat

record user =
  u_id :: int
  u_email :: pystr
  u_name :: pystr
  u_hashed_password :: pystr
  u_is_active :: bool
  u_created_at :: timestamp

record chat_session =
  s_id :: int
  s_user_id :: int
  s_title :: pystr
  s_created_at :: timestamp
  s_updated_at :: timestamp

record chat_message =
  m_id :: int
  m_session_id :: int
  m_content :: pystr
  m_sender_type :: pystr
  m_created_at :: timestamp

section \<open>OpenRouterService: the message format (openrouter\_service.py)\<close>

text \<open>A message of the provider's API: the dict with the keys \<open>role\<close> and \<open>content\<close>.\<close>

record api_message =
  role :: pystr
  content :: pystr

definition system_instruction :: pystr where
  "system_instruction =
     py ''You are a helpful AI assistant. Provide informative, accurate, and engaging responses. Be concise but thorough in your answers.''"

text \<open>The \<open>for msg in chat_messages\<close> loop, appending to \<open>formatted_messages\<close>.\<close>

fun format_loop :: "chat_message list \<Rightarrow> api_message list \<Rightarrow> api_message list" where
  "format_loop [] formatted_messages = formatted_messages"
| "format_loop (msg # rest) formatted_messages =
     format_loop rest
       (formatted_messages @
        [\<lparr>role = (if m_sender_type msg = py ''user'' then py ''user'' else py ''assistant''),
          content = m_content msg\<rparr>])"

definition format_messages_for_api :: "chat_message list \<Rightarrow> api_message list" where
  "format_messages_for_api chat_messages =
     format_loop chat_messages [\<lparr>role = py ''system'', content = system_instruction\<rparr>]"

text \<open>The role the loop gives to a sender.\<close>

definition api_role_of :: "pystr \<Rightarrow> pystr" where
  "api_role_of sender = (if sender = py ''user'' then py ''user'' else py ''assistant'')"

section \<open>OpenRouterService: talking to the provider (openrouter\_service.py)\<close>

subsection \<open>Settings and the HTTP client\<close>

text \<open>The fields of \<open>Settings\<close> (config.py) that the service reads.\<close>

record settings =
  openrouter_api_key :: pystr
  openrouter_model :: pystr
  openrouter_base_url :: pystr
  site_url :: pystr

text \<open>
  A header value is a string, except that the source writes the \<open>HTTP-Referer\<close> value
  as \<open>{settings.site_url}\<close>, a set with one element.
\<close>

datatype header_value = HeaderStr pystr | HeaderSet "pystr list"

record openrouter_service =
  api_key :: pystr
  model :: pystr
  base_url :: pystr
  headers :: "(pystr \<times> header_value) list"

text \<open>\<open>OpenRouterService.__init__\<close>\<close>

definition init_service :: "settings \<Rightarrow> openrouter_service" where
  "init_service st =
     \<lparr>api_key = openrouter_api_key st,
      model = openrouter_model st,
      base_url = openrouter_base_url st,
      headers =
        [(py ''Authorization'', HeaderStr (py ''Bearer '' @ openrouter_api_key st)),
         (py ''Content-Type'', HeaderStr (py ''application/json'')),
         (py ''HTTP-Referer'', HeaderSet [site_url st]),
         (py ''X-Title'', HeaderStr (py ''AI Chatbot App''))]\<rparr>"

record payload =
  p_model :: pystr
  p_messages :: "api_message list"
  p_max_tokens :: nat
  p_temperature :: rat
  p_stream :: bool

text \<open>\<open>client.post(...)\<close> or \<open>client.stream("POST", ...)\<close>\<close>

datatype call = Post | Stream

record request =
  r_call :: call
  r_url :: pystr
  r_headers :: "(pystr \<times> header_value) list"
  r_json :: payload

text \<open>
  An httpx response: its status, its body (read by \<open>response.json()\<close>) and what
  \<open>aiter_lines()\<close> yields, where an \<open>Inl\<close> item is the iterator raising.
\<close>

record response =
  resp_status :: nat
  resp_text :: pystr
  resp_lines :: "(exn + pystr) list"

text \<open>
  The world outside the program: \<open>json.loads\<close>, which returns the decoded value or
  raises (\<open>JSONDecodeError\<close> for a text that is not JSON, \<open>ValueError\<close> for an integer
  with more digits than the interpreter converts, \<open>RecursionError\<close> for a nesting that is
  too deep), and the HTTP client with the provider behind it. The client is a
  parameter: whether it accepts a request is its own affair. The answer to a request may depend on
  the requests made before it, so \<open>http_send\<close> also gets the list of earlier requests;
  that list is the state the service's functions pass along.
\<close>

record env =
  json_loads :: "pystr \<Rightarrow> exn + json"
  http_send :: "request list \<Rightarrow> request \<Rightarrow> exn + response"

text \<open>\<open>response.raise_for_status()\<close>: any status outside 2xx raises.\<close>

definition raise_for_status :: "response \<Rightarrow> exn + unit" where
  "raise_for_status response =
     (if 200 \<le> resp_status response \<and> resp_status response < 300 then Inr ()
      else Inl HTTPStatusError)"

text \<open>\<open>response.json()\<close>\<close>

definition response_json :: "env \<Rightarrow> response \<Rightarrow> exn + json" where
  "response_json env response = json_loads env (resp_text response)"

subsection \<open>The fixed replies\<close>

definition not_configured_text :: pystr where
  "not_configured_text =
     py ''I apologize, but I'm not properly configured to respond right now. Please contact the administrator.''"

definition timeout_text :: pystr where
  "timeout_text = py ''I apologize, but I'm taking too long to respond. Please try again.''"

definition connect_text :: pystr where
  "connect_text = py ''I'm having trouble connecting right now. Please try again in a moment.''"

definition generic_text :: pystr where
  "generic_text = py ''I encountered an unexpected error. Please try again.''"

definition unexpected_format_text :: pystr where
  "unexpected_format_text = py ''I received an unexpected response format. Please try again.''"

definition no_response_text :: pystr where
  "no_response_text = py ''I couldn't generate a response. Please try again.''"

subsection \<open>The two paths\<close>

text \<open>
  \<open>"choices" in data and len(data["choices"]) > 0\<close>, with the short circuit of
  \<open>and\<close>.
\<close>

definition has_choices :: "json \<Rightarrow> exn + bool" where
  "has_choices data =
     seq (py_contains (py ''choices'') data) (\<lambda>present.
       if present then
         seq (py_getitem data (py ''choices'')) (\<lambda>choices.
         seq (py_len choices) (\<lambda>n. Inr (0 < n)))
       else Inr False)"

definition completions_request :: "openrouter_service \<Rightarrow> call \<Rightarrow> payload \<Rightarrow> request" where
  "completions_request svc c pl =
     \<lparr>r_call = c, r_url = base_url svc @ py ''/chat/completions'',
      r_headers = headers svc, r_json = pl\<rparr>"

text \<open>
  \<open>_get_complete_response\<close> after the request: what it makes of the response, from
  \<open>response.raise_for_status()\<close> on.
\<close>

definition complete_reply :: "env \<Rightarrow> response \<Rightarrow> exn + pystr" where
  "complete_reply env response =
     seq (raise_for_status response) (\<lambda>u.
     seq (response_json env response) (\<lambda>data.
     seq (has_choices data) (\<lambda>ok.
       if ok then
         seq (py_getitem data (py ''choices'')) (\<lambda>choices.
         seq (py_getitem0 choices) (\<lambda>choice.
         seq (py_getitem choice (py ''message'')) (\<lambda>message.
         seq (py_getitem message (py ''content'')) (\<lambda>c.
         py_strip_method c))))
       else Inr unexpected_format_text)))"

text \<open>\<open>_get_complete_response\<close>\<close>

definition get_complete_response ::
  "env \<Rightarrow> openrouter_service \<Rightarrow> request list \<Rightarrow> payload \<Rightarrow> (exn + pystr) \<times> request list" where
  "get_complete_response env svc sent pl =
     (seq (http_send env sent (completions_request svc Post pl)) (complete_reply env),
      sent @ [completions_request svc Post pl])"

text \<open>The body of the \<open>try\<close> inside the streaming loop, for one decoded event.\<close>

definition add_event_content :: "json \<Rightarrow> pystr \<Rightarrow> exn + pystr" where
  "add_event_content data full_response =
     seq (has_choices data) (\<lambda>ok.
       if ok then
         seq (py_getitem data (py ''choices'')) (\<lambda>choices.
         seq (py_getitem0 choices) (\<lambda>choice.
         seq (py_get choice (py ''delta'') (JObj [])) (\<lambda>delta.
         seq (py_contains (py ''content'') delta) (\<lambda>present.
           if present then
             seq (py_getitem delta (py ''content'')) (\<lambda>c. py_iadd_str full_response c)
           else Inr full_response))))
       else Inr full_response)"

text \<open>
  The \<open>async for line in response.aiter_lines()\<close> loop. Its \<open>except\<close> clause catches
  \<open>json.JSONDecodeError\<close> and nothing else.
\<close>

fun stream_loop :: "env \<Rightarrow> (exn + pystr) list \<Rightarrow> pystr \<Rightarrow> exn + pystr" where
  "stream_loop env [] full_response = Inr full_response"
| "stream_loop env (Inl e # rest) full_response = Inl e"
| "stream_loop env (Inr line # rest) full_response =
     (if prefix (py ''data: '') line then
        (if py_strip (drop 6 line) = py ''[DONE]'' then Inr full_response
         else
           (case json_loads env (drop 6 line) of
              Inl e \<Rightarrow>
                (if e = JSONDecodeError then stream_loop env rest full_response else Inl e)
            | Inr data \<Rightarrow>
                (case add_event_content data full_response of
                   Inl e \<Rightarrow> Inl e
                 | Inr full_response' \<Rightarrow> stream_loop env rest full_response')))
      else stream_loop env rest full_response)"

text \<open>
  \<open>_stream_response\<close> after the request: what it makes of the response, from
  \<open>response.raise_for_status()\<close> on.
\<close>

definition stream_reply :: "env \<Rightarrow> response \<Rightarrow> exn + pystr" where
  "stream_reply env response =
     seq (raise_for_status response) (\<lambda>u.
     seq (stream_loop env (resp_lines response) []) (\<lambda>full_response.
       Inr (if full_response \<noteq> [] then py_strip full_response else no_response_text)))"

text \<open>\<open>_stream_response\<close>\<close>

definition stream_response ::
  "env \<Rightarrow> openrouter_service \<Rightarrow> request list \<Rightarrow> payload \<Rightarrow> (exn + pystr) \<times> request list" where
  "stream_response env svc sent pl =
     (seq (http_send env sent (completions_request svc Stream pl)) (stream_reply env),
      sent @ [completions_request svc Stream pl])"

subsection \<open>generate\_response\<close>

definition make_payload :: "openrouter_service \<Rightarrow> api_message list \<Rightarrow> bool \<Rightarrow> payload" where
  "make_payload svc messages stream =
     \<lparr>p_model = model svc, p_messages = messages, p_max_tokens = 2000,
      p_temperature = 7 / 10, p_stream = stream\<rparr>"

text \<open>The body of the \<open>try\<close> of \<open>generate_response\<close>.\<close>

definition provider_call ::
  "env \<Rightarrow> openrouter_service \<Rightarrow> request list \<Rightarrow> api_message list \<Rightarrow> bool \<Rightarrow>
   (exn + pystr) \<times> request list" where
  "provider_call env svc sent messages stream =
     (if stream then stream_response env svc sent (make_payload svc messages stream)
      else get_complete_response env svc sent (make_payload svc messages stream))"

text \<open>
  The \<open>except\<close> clauses, in the order of the source: the first whose class the
  exception belongs to handles it.
\<close>

fun failure_reply :: "exn \<Rightarrow> pystr" where
  "failure_reply TimeoutException = timeout_text"
| "failure_reply RequestError = connect_text"
| "failure_reply e = generic_text"

definition generate_response ::
  "env \<Rightarrow> openrouter_service \<Rightarrow> request list \<Rightarrow> api_message list \<Rightarrow> bool \<Rightarrow>
   (exn + pystr) \<times> request list" where
  "generate_response env svc sent messages stream =
     (if api_key svc = [] then (Inr not_configured_text, sent)
      else
        (case provider_call env svc sent messages stream of
           (Inr text, sent') \<Rightarrow> (Inr text, sent')
         | (Inl e, sent') \<Rightarrow> (Inr (failure_reply e), sent')))"

subsection \<open>generate\_chat\_title\<close>

definition title_instruction :: pystr where
  "title_instruction =
     py ''Generate a concise, descriptive title (max 5 words) for a chat conversation based on the user's first message. Only return the title, nothing else.''"

definition title_messages :: "pystr \<Rightarrow> api_message list" where
  "title_messages first_message =
     [\<lparr>role = py ''system'', content = title_instruction\<rparr>,
      \<lparr>role = py ''user'', content = first_message\<rparr>]"

text \<open>The double quote and the apostrophe, the arguments of the two \<open>strip\<close> calls.\<close>

definition double_quote :: pystr where
  "double_quote = [34]"

definition single_quote :: pystr where
  "single_quote = [39]"

text \<open>
  What \<open>generate_chat_title\<close> makes of the outcome of the awaited \<open>generate_response\<close>:
  the rest of the \<open>try\<close> block for a returned string, the \<open>except Exception\<close> clause
  for a raised exception.
\<close>

definition title_from :: "exn + pystr \<Rightarrow> pystr" where
  "title_from outcome =
     (case outcome of
        Inl e \<Rightarrow> py ''New Chat''
      | Inr title \<Rightarrow>
          py_strip_chars single_quote
            (py_strip_chars double_quote
              (if 50 < length title then take 47 title @ py ''...'' else title)))"

definition generate_chat_title ::
  "env \<Rightarrow> openrouter_service \<Rightarrow> request list \<Rightarrow> pystr \<Rightarrow> (exn + pystr) \<times> request list" where
  "generate_chat_title env svc sent first_message =
     (case generate_response env svc sent (title_messages first_message) False of
        (outcome, sent') \<Rightarrow> (Inr (title_from outcome), sent'))"

section \<open>The store and its services (user\_service.py)\<close>

text \<open>
  The database session: the rows of the three tables, in insertion order. The store is
  taken to be reliable (a query or a commit does not raise), and constraints the
  absent model classes may declare are not part of it.
\<close>

record db =
  db_users :: "user list"
  db_sessions :: "chat_session list"
  db_messages :: "chat_message list"

text \<open>
  Modelled from the spec: the generated numeric id of a new row, which \<open>app/models/user.py\<close>
  would declare. It is one more than the largest id of the table.
\<close>

definition fresh_id :: "int list \<Rightarrow> int" where
  "fresh_id ids = fold max ids 0 + 1"

subsection \<open>Schemas (schemas.py)\<close>

record user_create =
  uc_email :: pystr
  uc_name :: pystr
  uc_password :: pystr

record user_response =
  ur_id :: int
  ur_email :: pystr
  ur_name :: pystr
  ur_is_active :: bool
  ur_created_at :: timestamp

record chat_message_create =
  cm_content :: pystr
  cm_sender_type :: pystr

record chat_message_response =
  mr_id :: int
  mr_content :: pystr
  mr_sender_type :: pystr
  mr_created_at :: timestamp

record api_response =
  ar_success :: bool
  ar_message :: pystr
  ar_data :: "(pystr \<times> json) list option"

text \<open>\<open>UserResponse.model_validate(user)\<close> and \<open>ChatMessageResponse.model_validate(message)\<close>\<close>

definition to_user_response :: "user \<Rightarrow> user_response" where
  "to_user_response u =
     \<lparr>ur_id = u_id u, ur_email = u_email u, ur_name = u_name u,
      ur_is_active = u_is_active u, ur_created_at = u_created_at u\<rparr>"

definition to_message_response :: "chat_message \<Rightarrow> chat_message_response" where
  "to_message_response m =
     \<lparr>mr_id = m_id m, mr_content = m_content m, mr_sender_type = m_sender_type m,
      mr_created_at = m_created_at m\<rparr>"

subsection \<open>UserService\<close>

text \<open>
  \<open>create_user\<close>. The password hash of \<open>app/utils/auth.py\<close> is a parameter. Modelled
  from the spec: a new user is active and created at the current time of the store.
\<close>

definition create_user ::
  "(pystr \<Rightarrow> pystr) \<Rightarrow> db \<Rightarrow> timestamp \<Rightarrow> user_create \<Rightarrow> user \<times> db" where
  "create_user get_password_hash d now uc =
     (let db_user =
        \<lparr>u_id = fresh_id (map u_id (db_users d)), u_email = uc_email uc, u_name = uc_name uc,
         u_hashed_password = get_password_hash (uc_password uc), u_is_active = True,
         u_created_at = now\<rparr>
      in (db_user, d\<lparr>db_users := db_users d @ [db_user]\<rparr>))"

definition get_user_by_email :: "db \<Rightarrow> pystr \<Rightarrow> user option" where
  "get_user_by_email d email = find (\<lambda>u. u_email u = email) (db_users d)"

subsection \<open>ChatService\<close>

text \<open>Modelled from the spec: a new session is created and last updated now.\<close>

definition create_chat_session :: "db \<Rightarrow> timestamp \<Rightarrow> int \<Rightarrow> pystr \<Rightarrow> chat_session \<times> db" where
  "create_chat_session d now uid title =
     (let session =
        \<lparr>s_id = fresh_id (map s_id (db_sessions d)), s_user_id = uid, s_title = title,
         s_created_at = now, s_updated_at = now\<rparr>
      in (session, d\<lparr>db_sessions := db_sessions d @ [session]\<rparr>))"

definition get_session_by_id :: "db \<Rightarrow> int \<Rightarrow> chat_session option" where
  "get_session_by_id d session_id = find (\<lambda>s. s_id s = session_id) (db_sessions d)"

text \<open>
  \<open>add_message_to_session\<close>: the message is added and committed, then the session with
  that id, if there is one, gets the current time as \<open>updated_at\<close>. Modelled from the
  spec: the message's \<open>created_at\<close> is the current time. \<open>now\<close> is the reading of the
  store's clock during the call.
\<close>

definition add_message_to_session ::
  "db \<Rightarrow> timestamp \<Rightarrow> int \<Rightarrow> pystr \<Rightarrow> pystr \<Rightarrow> chat_message \<times> db" where
  "add_message_to_session d now session_id msg_content sender_type =
     (let message =
        \<lparr>m_id = fresh_id (map m_id (db_messages d)), m_session_id = session_id,
         m_content = msg_content, m_sender_type = sender_type, m_created_at = now\<rparr>;
          d1 = d\<lparr>db_messages := db_messages d @ [message]\<rparr>
      in (case get_session_by_id d1 session_id of
            None \<Rightarrow> (message, d1)
          | Some session \<Rightarrow>
              (message,
               d1\<lparr>db_sessions :=
                    map (\<lambda>s. if s_id s = session_id then s\<lparr>s_updated_at := now\<rparr> else s)
                      (db_sessions d1)\<rparr>)))"

text \<open>
  \<open>get_session_messages\<close>: the rows of the session ordered by \<open>created_at\<close>, ascending.
  Rows with the same \<open>created_at\<close> come in insertion order.
\<close>

definition get_session_messages :: "db \<Rightarrow> int \<Rightarrow> chat_message list" where
  "get_session_messages d session_id =
     sort_key m_created_at (filter (\<lambda>m. m_session_id m = session_id) (db_messages d))"

definition update_session_title :: "db \<Rightarrow> int \<Rightarrow> pystr \<Rightarrow> chat_session option \<times> db" where
  "update_session_title d session_id title =
     (case get_session_by_id d session_id of
        None \<Rightarrow> (None, d)
      | Some session \<Rightarrow>
          (Some (session\<lparr>s_title := title\<rparr>),
           d\<lparr>db_sessions :=
                map (\<lambda>s. if s_id s = session_id then s\<lparr>s_title := title\<rparr> else s)
                  (db_sessions d)\<rparr>))"

text \<open>
  \<open>db.delete(session); db.commit()\<close>. Modelled from the spec: deleting a session deletes
  its messages with it.
\<close>

definition delete_session :: "db \<Rightarrow> chat_session \<Rightarrow> db" where
  "delete_session d session =
     d\<lparr>db_sessions := filter (\<lambda>s. s_id s \<noteq> s_id session) (db_sessions d),
       db_messages := filter (\<lambda>m. m_session_id m \<noteq> s_id session) (db_messages d)\<rparr>"

text \<open>Appending several messages to a session, one call after the other.\<close>

fun add_messages ::
  "db \<Rightarrow> int \<Rightarrow> (timestamp \<times> pystr \<times> pystr) list \<Rightarrow> chat_message list \<times> db" where
  "add_messages d session_id [] = ([], d)"
| "add_messages d session_id ((now, msg_content, sender_type) # rest) =
     (case add_message_to_session d now session_id msg_content sender_type of
        (message, d1) \<Rightarrow>
          (case add_messages d1 session_id rest of
             (ms, d2) \<Rightarrow> (message # ms, d2)))"

section \<open>Authentication routes (routes/auth.py)\<close>

text \<open>\<open>HTTPException(status_code, detail)\<close>\<close>

datatype http_exception = HTTPException nat pystr

text \<open>
  \<open>get_current_user_dependency\<close>. \<open>verify_token\<close> of \<open>app/utils/auth.py\<close> is a
  parameter: it gives the subject of a valid token and \<open>None\<close> for any other token.
\<close>

definition get_current_user_dependency ::
  "(pystr \<Rightarrow> pystr option) \<Rightarrow> db \<Rightarrow> pystr \<Rightarrow> http_exception + user_response" where
  "get_current_user_dependency verify_token d credentials =
     (case verify_token credentials of
        None \<Rightarrow> Inl (HTTPException 401 (py ''Invalid token''))
      | Some email \<Rightarrow>
          (case get_user_by_email d email of
             None \<Rightarrow> Inl (HTTPException 404 (py ''User not found''))
           | Some u \<Rightarrow> Inr (to_user_response u)))"

text \<open>
  \<open>GET /auth/me\<close>, which does the same two steps itself; an \<open>HTTPException\<close> is raised
  again by the \<open>except HTTPException\<close> clause.
\<close>

definition get_current_user ::
  "(pystr \<Rightarrow> pystr option) \<Rightarrow> db \<Rightarrow> pystr \<Rightarrow> http_exception + user_response" where
  "get_current_user verify_token d credentials =
     (case verify_token credentials of
        None \<Rightarrow> Inl (HTTPException 401 (py ''Invalid token''))
      | Some email \<Rightarrow>
          (case get_user_by_email d email of
             None \<Rightarrow> Inl (HTTPException 404 (py ''User not found''))
           | Some u \<Rightarrow> Inr (to_user_response u)))"

text \<open>\<open>POST /auth/register\<close>\<close>

definition register ::
  "(pystr \<Rightarrow> pystr) \<Rightarrow> db \<Rightarrow> timestamp \<Rightarrow> user_create \<Rightarrow> (http_exception + api_response) \<times> db" where
  "register get_password_hash d now uc =
     (case get_user_by_email d (uc_email uc) of
        Some existing_user \<Rightarrow> (Inl (HTTPException 400 (py ''Email already registered'')), d)
      | None \<Rightarrow>
          (case create_user get_password_hash d now uc of
             (new_user, d1) \<Rightarrow>
               (Inr \<lparr>ar_success = True, ar_message = py ''User registered successfully'',
                     ar_data = Some [(py ''user_id'', JNum (u_id new_user)),
                                     (py ''email'', JStr (u_email new_user))]\<rparr>,
                d1)))"

section \<open>Chat routes (routes/chat.py)\<close>

text \<open>
  What a request handler works on: the database session and the requests made to the
  provider so far.
\<close>

record world =
  w_db :: db
  w_sent :: "request list"

text \<open>
  \<open>Depends(get_current_user_dependency)\<close>: the framework calls the dependency first and
  calls the handler with the user it returns; when the dependency raises, the handler is
  not called and the exception is the response.
\<close>

definition with_current_user ::
  "(pystr \<Rightarrow> pystr option) \<Rightarrow> pystr \<Rightarrow> world \<Rightarrow>
   (user_response \<Rightarrow> world \<Rightarrow> (http_exception + 'a) \<times> world) \<Rightarrow>
   (http_exception + 'a) \<times> world" where
  "with_current_user verify_token credentials w handler =
     (case get_current_user_dependency verify_token (w_db w) credentials of
        Inl e \<Rightarrow> (Inl e, w)
      | Inr current_user \<Rightarrow> handler current_user w)"

definition session_not_found :: http_exception where
  "session_not_found = HTTPException 404 (py ''Chat session not found'')"

text \<open>
  The route \<open>get_session_messages\<close> (\<open>GET /chat/sessions/{session_id}/messages\<close>); the
  service function has the name already.
\<close>

definition get_session_messages_route ::
  "world \<Rightarrow> int \<Rightarrow> user_response \<Rightarrow> (http_exception + chat_message_response list) \<times> world" where
  "get_session_messages_route w session_id current_user =
     (case get_session_by_id (w_db w) session_id of
        None \<Rightarrow> (Inl session_not_found, w)
      | Some session \<Rightarrow>
          if s_user_id session \<noteq> ur_id current_user then (Inl session_not_found, w)
          else (Inr (map to_message_response (get_session_messages (w_db w) session_id)), w))"

text \<open>
  The title step that \<open>send_message\<close> and \<open>generate_stream\<close> both contain: when the
  session has exactly one message of the user, a title is generated and stored; an
  exception of that attempt is logged and dropped.
\<close>

definition title_step ::
  "env \<Rightarrow> openrouter_service \<Rightarrow> db \<Rightarrow> request list \<Rightarrow> int \<Rightarrow> chat_message list \<Rightarrow>
   chat_message_create \<Rightarrow> db \<times> request list" where
  "title_step env svc d sent session_id previous_messages message =
     (if length (filter (\<lambda>msg. m_sender_type msg = py ''user'') previous_messages) = 1 then
        (case generate_chat_title env svc sent (cm_content message) of
           (Inr new_title, sent') \<Rightarrow> (snd (update_session_title d session_id new_title), sent')
         | (Inl e, sent') \<Rightarrow> (d, sent'))
      else (d, sent))"

text \<open>
  \<open>send_message\<close> (\<open>POST /chat/sessions/{session_id}/messages\<close>). \<open>t_user\<close> and \<open>t_bot\<close>
  are the readings of the store's clock when the two messages are added.
\<close>

definition send_message ::
  "env \<Rightarrow> openrouter_service \<Rightarrow> timestamp \<Rightarrow> timestamp \<Rightarrow> world \<Rightarrow> int \<Rightarrow>
   chat_message_create \<Rightarrow> user_response \<Rightarrow> (http_exception + chat_message_response) \<times> world" where
  "send_message env svc t_user t_bot w session_id message current_user =
     (case get_session_by_id (w_db w) session_id of
        None \<Rightarrow> (Inl session_not_found, w)
      | Some session \<Rightarrow>
          if s_user_id session \<noteq> ur_id current_user then (Inl session_not_found, w)
          else
            (case add_message_to_session (w_db w) t_user session_id (cm_content message)
                    (py ''user'') of
               (user_message, d1) \<Rightarrow>
                 (let previous_messages = get_session_messages d1 session_id in
                  (case title_step env svc d1 (w_sent w) session_id previous_messages message of
                     (d2, sent2) \<Rightarrow>
                       (case generate_response env svc sent2
                               (format_messages_for_api previous_messages) False of
                          (Inl e, sent3) \<Rightarrow>
                            (Inl (HTTPException 500 (py ''Failed to send message'')),
                             \<lparr>w_db = d2, w_sent = sent3\<rparr>)
                        | (Inr ai_response_text, sent3) \<Rightarrow>
                            (case add_message_to_session d2 t_bot session_id ai_response_text
                                    (py ''bot'') of
                               (ai_message, d3) \<Rightarrow>
                                 (Inr (to_message_response ai_message),
                                  \<lparr>w_db = d3, w_sent = sent3\<rparr>)))))))"

text \<open>\<open>delete_chat_session\<close> (\<open>DELETE /chat/sessions/{session_id}\<close>)\<close>

definition delete_chat_session ::
  "world \<Rightarrow> int \<Rightarrow> user_response \<Rightarrow> (http_exception + api_response) \<times> world" where
  "delete_chat_session w session_id current_user =
     (case get_session_by_id (w_db w) session_id of
        None \<Rightarrow> (Inl session_not_found, w)
      | Some session \<Rightarrow>
          if s_user_id session \<noteq> ur_id current_user then (Inl session_not_found, w)
          else
            (Inr \<lparr>ar_success = True, ar_message = py ''Chat session deleted successfully'',
                  ar_data = None\<rparr>,
             w\<lparr>w_db := delete_session (w_db w) session\<rparr>))"

text \<open>
  The frames of the streaming endpoint: the data frame with the reply, the \<open>[DONE]\<close>
  frame, and the error frame.
\<close>

datatype stream_frame = DataFrame chat_message_response | DoneFrame | ErrorFrame

text \<open>
  The generator \<open>generate_stream\<close>, run to its end as the framework does when it sends
  the response.
\<close>

definition generate_stream ::
  "env \<Rightarrow> openrouter_service \<Rightarrow> timestamp \<Rightarrow> world \<Rightarrow> int \<Rightarrow> chat_message_create \<Rightarrow>
   stream_frame list \<times> world" where
  "generate_stream env svc t_bot w session_id message =
     (let previous_messages = get_session_messages (w_db w) session_id in
      (case title_step env svc (w_db w) (w_sent w) session_id previous_messages message of
         (d2, sent2) \<Rightarrow>
           (case generate_response env svc sent2
                   (format_messages_for_api previous_messages) True of
              (Inl e, sent3) \<Rightarrow> ([ErrorFrame], \<lparr>w_db = d2, w_sent = sent3\<rparr>)
            | (Inr ai_response_text, sent3) \<Rightarrow>
                (case add_message_to_session d2 t_bot session_id ai_response_text
                        (py ''bot'') of
                   (ai_message, d3) \<Rightarrow>
                     ([DataFrame \<lparr>mr_id = m_id ai_message, mr_content = ai_response_text,
                                  mr_sender_type = py ''bot'',
                                  mr_created_at = m_created_at ai_message\<rparr>,
                       DoneFrame],
                      \<lparr>w_db = d3, w_sent = sent3\<rparr>)))))"

text \<open>\<open>send_message_stream\<close> (\<open>POST /chat/sessions/{session_id}/messages/stream\<close>)\<close>

definition send_message_stream ::
  "env \<Rightarrow> openrouter_service \<Rightarrow> timestamp \<Rightarrow> timestamp \<Rightarrow> world \<Rightarrow> int \<Rightarrow>
   chat_message_create \<Rightarrow> user_response \<Rightarrow> (http_exception + stream_frame list) \<times> world" where
  "send_message_stream env svc t_user t_bot w session_id message current_user =
     (case get_session_by_id (w_db w) session_id of
        None \<Rightarrow> (Inl session_not_found, w)
      | Some session \<Rightarrow>
          if s_user_id session \<noteq> ur_id current_user then (Inl session_not_found, w)
          else
            (case add_message_to_session (w_db w) t_user session_id (cm_content message)
                    (py ''user'') of
               (user_message, d1) \<Rightarrow>
                 (case generate_stream env svc t_bot (w\<lparr>w_db := d1\<rparr>) session_id message of
                    (frames, w') \<Rightarrow> (Inr frames, w'))))"

section \<open>The shape of the provider's answers\<close>

text \<open>
  The next definitions describe a decoded body by its shape alone; none of them uses the
  functions of the service.
\<close>

subsection \<open>The non-streaming body\<close>


text \<open>
  The value of \<open>choices\<close> is empty: the empty array, and also the empty string and the
  empty object, whose length is 0 as well.
\<close>

definition empty_choices :: "json \<Rightarrow> bool" where
  "empty_choices c =
     (case c of JArr xs \<Rightarrow> xs = [] | JStr s \<Rightarrow> s = [] | JObj kvs \<Rightarrow> kvs = [] | _ \<Rightarrow> False)"

text \<open>
  The body has no choices: it is an object without the member \<open>choices\<close> or with an
  empty one; or it is an array without the element \<open>"choices"\<close>, or a string in which
  \<open>choices\<close> does not occur, for which the membership test of the code is false too.
  \<open>null\<close>, a number and a boolean have no members at all and are not among them.
\<close>

definition lacks_choices :: "json \<Rightarrow> bool" where
  "lacks_choices data =
     (case data of
        JObj members \<Rightarrow>
          (case map_of members (py ''choices'') of None \<Rightarrow> True | Some c \<Rightarrow> empty_choices c)
      | JArr xs \<Rightarrow> JStr (py ''choices'') \<notin> set xs
      | JStr s \<Rightarrow> \<not> str_contains (py ''choices'') s
      | _ \<Rightarrow> False)"

subsection \<open>The events of a stream\<close>

text \<open>
  The payloads of the events the loop looks at: the lines that start with the event
  marker, without the marker, up to the first one that is the end-of-stream sentinel.
\<close>

definition sse_payloads :: "pystr list \<Rightarrow> pystr list" where
  "sse_payloads ls =
     takeWhile (\<lambda>d. py_strip d \<noteq> py ''[DONE]'')
       (map (drop 6) (filter (prefix (py ''data: '')) ls))"

text \<open>
  What a delta contributes: the string \<open>content\<close> of an object, or nothing when the
  object has no \<open>content\<close>. A \<open>content\<close> that is not a string is ill shaped (\<open>None\<close>), and
  so is a delta that is \<open>null\<close>, a number or a boolean. An array or a string in the place
  of the delta contributes nothing as long as \<open>content\<close> does not occur in it.
\<close>

definition delta_fragment :: "json \<Rightarrow> pystr option" where
  "delta_fragment delta =
     (case delta of
        JObj members \<Rightarrow>
          (case map_of members (py ''content'') of
             None \<Rightarrow> Some []
           | Some (JStr s) \<Rightarrow> Some s
           | Some other \<Rightarrow> None)
      | JArr xs \<Rightarrow> if JStr (py ''content'') \<in> set xs then None else Some []
      | JStr s \<Rightarrow> if str_contains (py ''content'') s then None else Some []
      | _ \<Rightarrow> None)"

text \<open>
  What the first choice of an event contributes: the choice is an object, and its delta
  is the member \<open>delta\<close>, or the empty object when it has none.
\<close>

definition choices_fragment :: "json \<Rightarrow> pystr option" where
  "choices_fragment c =
     (case c of
        JArr (JObj choice # others) \<Rightarrow>
          delta_fragment (case map_of choice (py ''delta'') of None \<Rightarrow> JObj [] | Some d \<Rightarrow> d)
      | _ \<Rightarrow> None)"

text \<open>
  The content fragment of a decoded event: \<open>Some\<close> of the fragment in the first delta
  (empty when the event has no choices or the delta no content), \<open>None\<close> for an event
  that is ill shaped.
\<close>

definition event_fragment :: "json \<Rightarrow> pystr option" where
  "event_fragment data =
     (if lacks_choices data then Some []
      else (case data of
              JObj members \<Rightarrow>
                (case map_of members (py ''choices'') of
                   None \<Rightarrow> None
                 | Some c \<Rightarrow> choices_fragment c)
            | _ \<Rightarrow> None))"

text \<open>
  A payload is well shaped when it is not JSON (the decoder raises \<open>JSONDecodeError\<close>)
  or decodes to a well-shaped event.
\<close>

definition well_shaped :: "env \<Rightarrow> pystr \<Rightarrow> bool" where
  "well_shaped env d =
     (case json_loads env d of
        Inl e \<Rightarrow> e = JSONDecodeError
      | Inr data \<Rightarrow> (case event_fragment data of None \<Rightarrow> False | Some s \<Rightarrow> True))"

text \<open>A payload that is not JSON contributes nothing.\<close>

definition fragment_of :: "env \<Rightarrow> pystr \<Rightarrow> pystr" where
  "fragment_of env d =
     (case json_loads env d of
        Inl e \<Rightarrow> []
      | Inr data \<Rightarrow> (case event_fragment data of None \<Rightarrow> [] | Some s \<Rightarrow> s))"

definition accumulated :: "env \<Rightarrow> pystr list \<Rightarrow> pystr" where
  "accumulated env ls = concat (map (fragment_of env) (sse_payloads ls))"

section \<open>Claims in the specification's words\<close>





text \<open>
  An unauthenticated outcome, as the specification words it: the response with the
  status 401.
\<close>

definition unauthenticated :: "http_exception \<Rightarrow> bool" where
  "unauthenticated e = (case e of HTTPException status detail \<Rightarrow> status = 401)"

section \<open>The HTTP-Referer header\<close>

text \<open>
  \<open>__init__\<close> writes the value of \<open>HTTP-Referer\<close> as \<open>{settings.site_url}\<close>, a set, where
  the repository's own test script (test\_openrouter.py) writes a plain string. httpx
  takes header values that are \<open>str\<close> or \<open>bytes\<close> only and raises \<open>TypeError\<close> for
  any other before it sends anything.
\<close>

definition string_headers :: "request \<Rightarrow> bool" where
  "string_headers r =
     list_all (\<lambda>kv. case snd kv of HeaderStr v \<Rightarrow> True | HeaderSet vs \<Rightarrow> False) (r_headers r)"

text \<open>A client that refuses a request with a header value that is not a string.\<close>

definition refuses_other_headers :: "env \<Rightarrow> bool" where
  "refuses_other_headers env =
     (\<forall>sent r. string_headers r \<or> http_send env sent r = Inl TypeError)"

text \<open>The service with the header as the test script writes it.\<close>

definition plain_service :: "settings \<Rightarrow> openrouter_service" where
  "plain_service st =
     (init_service st)
       \<lparr>headers :=
          [(py ''Authorization'', HeaderStr (py ''Bearer '' @ openrouter_api_key st)),
           (py ''Content-Type'', HeaderStr (py ''application/json'')),
           (py ''HTTP-Referer'', HeaderStr (site_url st)),
           (py ''X-Title'', HeaderStr (py ''AI Chatbot App''))]\<rparr>"

section \<open>Example responses of the provider\<close>

text \<open>
  A completion with one choice whose \<open>message\<close> (or, in a stream, \<open>delta\<close>) carries the
  given content.
\<close>

definition choices_json :: "pystr \<Rightarrow> json \<Rightarrow> json" where
  "choices_json k c = JObj [(py ''choices'', JArr [JObj [(k, JObj [(py ''content'', c)])]])]"

text \<open>The payloads of some events of a stream.\<close>

definition hel_event :: pystr where
  "hel_event = py ''{\"choices\":[{\"delta\":{\"content\":\"Hel\"}}]}''"

definition lo_event :: pystr where
  "lo_event = py ''{\"choices\":[{\"delta\":{\"content\":\"lo\"}}]}''"

definition hi_event :: pystr where
  "hi_event = py ''{\"choices\":[{\"delta\":{\"content\":\" Hi\"}}]}''"

definition null_event :: pystr where
  "null_event = py ''{\"choices\":[{\"delta\":{\"content\":null}}]}''"

definition bare_event :: pystr where
  "bare_event = py ''{\"choices\":[{}]}''"

text \<open>An integer of 5000 digits, which \<open>json.loads\<close> refuses with \<open>ValueError\<close>.\<close>

definition long_integer :: pystr where
  "long_integer = replicate 5000 49"

text \<open>Some bodies of a non-streaming response.\<close>

definition hello_body :: pystr where
  "hello_body = py ''{\"choices\":[{\"message\":{\"content\":\" Hello! \"}}]}''"

definition no_choices_body :: pystr where
  "no_choices_body = py ''{\"choices\":[]}''"

definition null_body :: pystr where
  "null_body = py ''null''"

text \<open>A body whose content is \<open>a\<close> between two apostrophes on each side.\<close>

definition quoted_body :: pystr where
  "quoted_body =
     py ''{\"choices\":[{\"message\":{\"content\":\"'' @ [39, 39, 97, 39, 39] @ py ''\"}}]}''"

text \<open>
  \<open>json.loads\<close> on the texts of the examples; a text that is not in the table
  (\<open>not json\<close>) is not JSON.
\<close>

definition demo_json_table :: "(pystr \<times> (exn + json)) list" where
  "demo_json_table =
     [(hel_event, Inr (choices_json (py ''delta'') (JStr (py ''Hel'')))),
      (lo_event, Inr (choices_json (py ''delta'') (JStr (py ''lo'')))),
      (hi_event, Inr (choices_json (py ''delta'') (JStr (py '' Hi'')))),
      (null_event, Inr (choices_json (py ''delta'') JNull)),
      (bare_event, Inr (JObj [(py ''choices'', JArr [JObj []])])),
      (hello_body, Inr (choices_json (py ''message'') (JStr (py '' Hello! '')))),
      (no_choices_body, Inr (JObj [(py ''choices'', JArr [])])),
      (null_body, Inr JNull),
      (quoted_body, Inr (choices_json (py ''message'') (JStr [39, 39, 97, 39, 39]))),
      (long_integer, Inl ValueError)]"

definition demo_loads :: "pystr \<Rightarrow> exn + json" where
  "demo_loads s = (case map_of demo_json_table s of None \<Rightarrow> Inl JSONDecodeError | Some r \<Rightarrow> r)"

text \<open>A provider that answers every request with status 200, the given body and lines.\<close>

definition demo_response :: "pystr \<Rightarrow> pystr list \<Rightarrow> response" where
  "demo_response body ls = \<lparr>resp_status = 200, resp_text = body, resp_lines = map Inr ls\<rparr>"

definition demo_env :: "pystr \<Rightarrow> pystr list \<Rightarrow> env" where
  "demo_env body ls =
     \<lparr>json_loads = demo_loads, http_send = (\<lambda>sent r. Inr (demo_response body ls))\<rparr>"

definition demo_settings :: settings where
  "demo_settings =
     \<lparr>openrouter_api_key = py ''sk-or-demo'', openrouter_model = py ''anthropic/claude-3.5-sonnet'',
      openrouter_base_url = py ''https://openrouter.ai/api/v1'',
      site_url = py ''http://localhost:3000''\<rparr>"

text \<open>The line of an event with the given payload.\<close>

definition event_line :: "pystr \<Rightarrow> pystr" where
  "event_line d = py ''data: '' @ d"

text \<open>
  A stream with a comment line, an event that is not JSON, an event whose choice has no
  delta, the sentinel, and an event after the sentinel.
\<close>

definition demo_stream :: "pystr list" where
  "demo_stream =
     [py '': keep-alive'', event_line hel_event, event_line (py ''not json''),
      event_line bare_event, event_line lo_event, event_line (py ''[DONE]''),
      event_line hi_event]"

text \<open>A stream whose only fragment starts with a space.\<close>

definition padded_stream :: "pystr list" where
  "padded_stream = [event_line hi_event]"

text \<open>A stream with an event whose content is \<open>null\<close> between two fragments.\<close>

definition null_content_stream :: "pystr list" where
  "null_content_stream = [event_line hel_event, event_line null_event, event_line lo_event]"

text \<open>A stream with an event that the decoder refuses with \<open>ValueError\<close>.\<close>

definition long_integer_stream :: "pystr list" where
  "long_integer_stream = [event_line hel_event, event_line long_integer, event_line lo_event]"

section \<open>An example store\<close>

text \<open>
  One user with a session of their own, and a session of another user. The token
  \<open>stale-token\<close> is valid for a subject that has no user record.
\<close>

definition demo_user :: user where
  "demo_user =
     \<lparr>u_id = 1, u_email = py ''a@x.com'', u_name = py ''A'', u_hashed_password = py ''hash'',
      u_is_active = True, u_created_at = 0\<rparr>"

definition own_session :: chat_session where
  "own_session =
     \<lparr>s_id = 1, s_user_id = 1, s_title = py ''New Chat'', s_created_at = 1, s_updated_at = 1\<rparr>"

definition foreign_session :: chat_session where
  "foreign_session =
     \<lparr>s_id = 7, s_user_id = 2, s_title = py ''New Chat'', s_created_at = 2, s_updated_at = 2\<rparr>"

definition demo_db :: db where
  "demo_db =
     \<lparr>db_users = [demo_user], db_sessions = [own_session, foreign_session], db_messages = []\<rparr>"

definition demo_verify :: "pystr \<Rightarrow> pystr option" where
  "demo_verify token =
     (if token = py ''good-token'' then Some (py ''a@x.com'')
      else if token = py ''stale-token'' then Some (py ''gone@x.com'')
      else None)"

text \<open>The example store with a message in the session of the other user.\<close>

definition busy_db :: db where
  "busy_db =
     demo_db\<lparr>db_messages :=
       [\<lparr>m_id = 1, m_session_id = 7, m_content = py ''Other'', m_sender_type = py ''user'',
         m_created_at = 2\<rparr>]\<rparr>"

section \<open>Properties of the message format\<close>

lemma format_loop_append:
  "format_loop ms acc =
     acc @ map (\<lambda>m. \<lparr>role = api_role_of (m_sender_type m), content = m_content m\<rparr>) ms"
  by (induction ms arbitrary: acc) (simp_all add: api_role_of_def)

lemma format_messages_for_api_eq:
  "format_messages_for_api ms =
     \<lparr>role = py ''system'', content = system_instruction\<rparr> #
     map (\<lambda>m. \<lparr>role = api_role_of (m_sender_type m), content = m_content m\<rparr>) ms"
  by (simp add: format_messages_for_api_def format_loop_append)

lemma role_names_distinct:
  "py ''user'' \<noteq> py ''system''" "py ''assistant'' \<noteq> py ''system''" "py ''bot'' \<noteq> py ''user''"
  by (simp_all add: py_def)

text \<open>
  C2. For every list of chat messages, empty or not, \<open>format_messages_for_api\<close> returns
  one element more than it was given. The first element is the system message with the
  fixed instruction, and it is the only element with the role \<open>system\<close>. Element
  \<open>i + 1\<close> is made from input message \<open>i\<close>: it has that message's content unchanged,
  the role \<open>user\<close> when the sender is \<open>user\<close>, and the role \<open>assistant\<close> when the
  sender is \<open>bot\<close>. Nothing is dropped, merged or reordered.
\<close>

theorem format_messages_for_api_correct:
  "length (format_messages_for_api ms) = Suc (length ms) \<and>
   format_messages_for_api ms ! 0 = \<lparr>role = py ''system'', content = system_instruction\<rparr> \<and>
   length (filter (\<lambda>a. role a = py ''system'') (format_messages_for_api ms)) = 1 \<and>
   (\<forall>i < length ms.
      content (format_messages_for_api ms ! Suc i) = m_content (ms ! i) \<and>
      (m_sender_type (ms ! i) = py ''user'' \<longrightarrow>
         role (format_messages_for_api ms ! Suc i) = py ''user'') \<and>
      (m_sender_type (ms ! i) = py ''bot'' \<longrightarrow>
         role (format_messages_for_api ms ! Suc i) = py ''assistant''))"
proof -
  have no_system: "filter (\<lambda>a. role a = py ''system'')
      (map (\<lambda>m. \<lparr>role = api_role_of (m_sender_type m), content = m_content m\<rparr>) ms) = []"
    by (induction ms) (simp_all add: api_role_of_def role_names_distinct)
  show ?thesis
    by (simp add: format_messages_for_api_eq no_system api_role_of_def role_names_distinct)
qed

theorem format_messages_for_api_correct_witness:
  "length (format_messages_for_api
      [\<lparr>m_id = 1, m_session_id = 1, m_content = py ''Hi'', m_sender_type = py ''user'',
        m_created_at = 0\<rparr>,
       \<lparr>m_id = 2, m_session_id = 1, m_content = py ''Hello'', m_sender_type = py ''bot'',
        m_created_at = 1\<rparr>]) = 3 \<and>
   format_messages_for_api
      [\<lparr>m_id = 1, m_session_id = 1, m_content = py ''Hi'', m_sender_type = py ''user'',
        m_created_at = 0\<rparr>,
       \<lparr>m_id = 2, m_session_id = 1, m_content = py ''Hello'', m_sender_type = py ''bot'',
        m_created_at = 1\<rparr>] ! Suc 1 = \<lparr>role = py ''assistant'', content = py ''Hello''\<rparr>"
  using format_messages_for_api_correct
    [of "[\<lparr>m_id = 1, m_session_id = 1, m_content = py ''Hi'', m_sender_type = py ''user'',
           m_created_at = 0\<rparr>,
          \<lparr>m_id = 2, m_session_id = 1, m_content = py ''Hello'', m_sender_type = py ''bot'',
           m_created_at = 1\<rparr>]"]
  by (simp add: format_messages_for_api_def role_names_distinct)

section \<open>Properties of the completion client\<close>

lemma seq_simps:
  "seq (Inl e) f = Inl e" "seq (Inr x) f = f x"
  by (simp_all add: seq_def)

text \<open>
  C1. \<open>generate_response\<close> returns a text for every message list and stream flag, it
  never raises. With an empty API key it returns the fixed "not properly configured"
  text and makes no request (the list of requests made is unchanged). With a key, when
  the call to the provider raises \<open>TimeoutException\<close> it returns the fixed "taking too
  long" text, when it raises another \<open>RequestError\<close> the fixed "trouble connecting"
  text, and when it raises any other exception the fixed generic error text.
\<close>

theorem generate_response_degrades:
  "(\<exists>text. fst (generate_response env svc sent messages stream) = Inr text) \<and>
   (api_key svc = [] \<longrightarrow>
      generate_response env svc sent messages stream = (Inr not_configured_text, sent)) \<and>
   (api_key svc \<noteq> [] \<longrightarrow>
      fst (provider_call env svc sent messages stream) = Inl TimeoutException \<longrightarrow>
      fst (generate_response env svc sent messages stream) = Inr timeout_text) \<and>
   (api_key svc \<noteq> [] \<longrightarrow>
      fst (provider_call env svc sent messages stream) = Inl RequestError \<longrightarrow>
      fst (generate_response env svc sent messages stream) = Inr connect_text) \<and>
   (api_key svc \<noteq> [] \<longrightarrow>
      fst (provider_call env svc sent messages stream) = Inl e \<longrightarrow>
      e \<noteq> TimeoutException \<longrightarrow> e \<noteq> RequestError \<longrightarrow>
      fst (generate_response env svc sent messages stream) = Inr generic_text)"
proof -
  obtain r sent' where pc: "provider_call env svc sent messages stream = (r, sent')"
    by (cases "provider_call env svc sent messages stream")
  have other: "e \<noteq> TimeoutException \<Longrightarrow> e \<noteq> RequestError \<Longrightarrow> failure_reply e = generic_text"
    by (cases e) simp_all
  show ?thesis
    by (cases r) (simp_all add: generate_response_def pc other)
qed

lemma demo_key: "api_key (init_service demo_settings) \<noteq> []"
  by (simp add: init_service_def demo_settings_def py_def)

lemma demo_no_key: "api_key (init_service (demo_settings\<lparr>openrouter_api_key := []\<rparr>)) = []"
  by (simp add: init_service_def)

theorem generate_response_degrades_witness:
  "generate_response \<lparr>json_loads = (\<lambda>s. Inl JSONDecodeError), http_send = (\<lambda>sent r. Inl TimeoutException)\<rparr>
      (init_service (demo_settings\<lparr>openrouter_api_key := []\<rparr>)) [] [] False
     = (Inr not_configured_text, []) \<and>
   fst (generate_response \<lparr>json_loads = (\<lambda>s. Inl JSONDecodeError), http_send = (\<lambda>sent r. Inl TimeoutException)\<rparr>
      (init_service demo_settings) [] [] False) = Inr timeout_text \<and>
   fst (generate_response \<lparr>json_loads = (\<lambda>s. Inl JSONDecodeError), http_send = (\<lambda>sent r. Inl RequestError)\<rparr>
      (init_service demo_settings) [] [] True) = Inr connect_text \<and>
   fst (generate_response \<lparr>json_loads = (\<lambda>s. Inl JSONDecodeError),
        http_send = (\<lambda>sent r. Inr \<lparr>resp_status = 500, resp_text = [], resp_lines = []\<rparr>)\<rparr>
      (init_service demo_settings) [] [] False) = Inr generic_text"
  using
    generate_response_degrades [of "\<lparr>json_loads = (\<lambda>s. Inl JSONDecodeError), http_send = (\<lambda>sent r. Inl TimeoutException)\<rparr>"
      "init_service (demo_settings\<lparr>openrouter_api_key := []\<rparr>)" "[]" "[]" False]
    generate_response_degrades [of "\<lparr>json_loads = (\<lambda>s. Inl JSONDecodeError), http_send = (\<lambda>sent r. Inl TimeoutException)\<rparr>"
      "init_service demo_settings" "[]" "[]" False]
    generate_response_degrades [of "\<lparr>json_loads = (\<lambda>s. Inl JSONDecodeError), http_send = (\<lambda>sent r. Inl RequestError)\<rparr>"
      "init_service demo_settings" "[]" "[]" True]
    generate_response_degrades [of "\<lparr>json_loads = (\<lambda>s. Inl JSONDecodeError),
        http_send = (\<lambda>sent r. Inr \<lparr>resp_status = 500, resp_text = [], resp_lines = []\<rparr>)\<rparr>"
      "init_service demo_settings" "[]" "[]" False HTTPStatusError]
  by (simp add: demo_key demo_no_key provider_call_def get_complete_response_def stream_response_def
      complete_reply_def stream_reply_def seq_simps raise_for_status_def)
  

lemma has_choices_JObj:
  "has_choices (JObj members) =
     (case map_of members (py ''choices'') of
        None \<Rightarrow> Inr False
      | Some c \<Rightarrow> seq (py_len c) (\<lambda>n. Inr (0 < n)))"
  by (simp add: has_choices_def seq_simps split: option.splits)

lemma py_len_empty: "empty_choices c \<Longrightarrow> py_len c = Inr 0"
  by (cases c) (simp_all add: empty_choices_def)

lemma has_choices_lacks: "lacks_choices data \<Longrightarrow> has_choices data = Inr False"
  by (cases data)
     (auto simp add: lacks_choices_def has_choices_JObj has_choices_def seq_simps py_len_empty
       split: option.splits)

lemma py_iadd_str_cases:
  "py_iadd_str acc c = (case c of JStr s \<Rightarrow> Inr (acc @ s) | _ \<Rightarrow> Inl TypeError)"
  by (cases c) simp_all




lemma generic_failures:
  "failure_reply TypeError = generic_text" "failure_reply KeyError = generic_text"
  "failure_reply IndexError = generic_text" "failure_reply AttributeError = generic_text"
  "failure_reply JSONDecodeError = generic_text" "failure_reply ValueError = generic_text"
  "failure_reply RecursionError = generic_text" "failure_reply HTTPStatusError = generic_text"
  by simp_all

lemma py_getitem0_cases:
  "py_getitem0 (JStr s) = (case s of [] \<Rightarrow> Inl IndexError | c # r \<Rightarrow> Inr (JStr [c]))"
  "py_getitem0 (JArr xs) = (case xs of [] \<Rightarrow> Inl IndexError | x # r \<Rightarrow> Inr x)"
  by (simp_all split: list.splits)


lemma add_event_content_some:
  "event_fragment data = Some s \<Longrightarrow> add_event_content data full = Inr (full @ s)"
proof (cases "lacks_choices data")
  case True
  assume "event_fragment data = Some s"
  with True show ?thesis
    by (simp add: event_fragment_def add_event_content_def has_choices_lacks seq_simps)
next
  case False
  assume "event_fragment data = Some s"
  with False show ?thesis
    by (cases data)
       (auto simp add: event_fragment_def choices_fragment_def delta_fragment_def
         lacks_choices_def empty_choices_def add_event_content_def has_choices_JObj seq_simps
         py_getitem0_cases py_iadd_str_cases
         split: json.splits option.splits list.splits if_splits)
qed


lemma sse_payloads_Cons:
  "sse_payloads (l # ls) =
     (if prefix (py ''data: '') l then
        (if py_strip (drop 6 l) = py ''[DONE]'' then [] else drop 6 l # sse_payloads ls)
      else sse_payloads ls)"
  by (simp add: sse_payloads_def)

lemma stream_loop_well_shaped:
  "list_all (well_shaped env) (sse_payloads ls) \<Longrightarrow>
   stream_loop env (map Inr ls) full = Inr (full @ accumulated env ls)"
proof (induction ls arbitrary: full)
  case Nil
  show ?case by (simp add: accumulated_def sse_payloads_def)
next
  case (Cons l ls)
  show ?case
  proof (cases "prefix (py ''data: '') l \<and> py_strip (drop 6 l) \<noteq> py ''[DONE]''")
    case False
    with Cons show ?thesis
      by (auto simp add: accumulated_def sse_payloads_Cons)
  next
    case True
    then have pl: "sse_payloads (l # ls) = drop 6 l # sse_payloads ls"
      by (simp add: sse_payloads_Cons)
    from Cons.prems pl have shaped: "well_shaped env (drop 6 l)"
      and rest: "list_all (well_shaped env) (sse_payloads ls)"
      by simp_all
    show ?thesis
    proof (cases "json_loads env (drop 6 l)")
      case (Inl e)
      with shaped have "e = JSONDecodeError"
        by (simp add: well_shaped_def)
      with True Inl Cons.IH [OF rest] pl show ?thesis
        by (simp add: accumulated_def fragment_of_def)
    next
      case (Inr data)
      with shaped obtain s where s: "event_fragment data = Some s"
        by (auto simp add: well_shaped_def split: option.splits)
      from True Inr s add_event_content_some [OF s, of full]
        Cons.IH [OF rest, of "full @ s"] pl
      show ?thesis
        by (simp add: accumulated_def fragment_of_def)
    qed
  qed
qed



lemma generate_response_stream_reply:
  assumes "api_key svc \<noteq> []"
      and "http_send env sent (completions_request svc Stream (make_payload svc messages True)) =
             Inr response"
  shows "fst (generate_response env svc sent messages True) =
           Inr (case stream_reply env response of Inl e \<Rightarrow> failure_reply e | Inr t \<Rightarrow> t)"
  using assms
  by (simp add: generate_response_def provider_call_def stream_response_def seq_simps
      split: sum.splits)



lemma replicate_neq: "c \<noteq> x \<Longrightarrow> replicate n x \<noteq> c # s" "c \<noteq> x \<Longrightarrow> c # s \<noteq> replicate n x"
  by (cases n; auto)+

lemma demo_decodes:
  "demo_loads hel_event = Inr (choices_json (py ''delta'') (JStr (py ''Hel'')))"
  "demo_loads lo_event = Inr (choices_json (py ''delta'') (JStr (py ''lo'')))"
  "demo_loads hi_event = Inr (choices_json (py ''delta'') (JStr (py '' Hi'')))"
  "demo_loads null_event = Inr (choices_json (py ''delta'') JNull)"
  "demo_loads bare_event = Inr (JObj [(py ''choices'', JArr [JObj []])])"
  "demo_loads hello_body = Inr (choices_json (py ''message'') (JStr (py '' Hello! '')))"
  "demo_loads no_choices_body = Inr (JObj [(py ''choices'', JArr [])])"
  "demo_loads null_body = Inr JNull"
  "demo_loads quoted_body = Inr (choices_json (py ''message'') (JStr [39, 39, 97, 39, 39]))"
  "demo_loads long_integer = Inl ValueError"
  "demo_loads (py ''not json'') = Inl JSONDecodeError"
  by (simp_all add: demo_loads_def demo_json_table_def hel_event_def lo_event_def hi_event_def
      null_event_def bare_event_def hello_body_def no_choices_body_def null_body_def
      quoted_body_def long_integer_def py_def replicate_neq)

lemma strip_where_keeps:
  "s \<noteq> [] \<Longrightarrow> \<not> P (hd s) \<Longrightarrow> \<not> P (last s) \<Longrightarrow> strip_where P s = s"
proof -
  assume s: "s \<noteq> []" and h: "\<not> P (hd s)" and l: "\<not> P (last s)"
  from s h have "dropWhile P s = s"
    by (cases s) simp_all
  moreover from s l have "dropWhile P (rev s) = rev s"
    by (cases "rev s") (simp_all add: last_rev [symmetric] hd_rev)
  ultimately show ?thesis
    by (simp add: strip_where_def)
qed

lemma not_sentinel:
  "py_strip hel_event \<noteq> py ''[DONE]''" "py_strip lo_event \<noteq> py ''[DONE]''"
  "py_strip hi_event \<noteq> py ''[DONE]''" "py_strip null_event \<noteq> py ''[DONE]''"
  "py_strip bare_event \<noteq> py ''[DONE]''" "py_strip (py ''not json'') \<noteq> py ''[DONE]''"
  "py_strip long_integer \<noteq> py ''[DONE]''" "py_strip (py ''[DONE]'') = py ''[DONE]''"
  by (simp_all add: py_strip_def strip_where_keeps py_isspace_def hel_event_def lo_event_def
      hi_event_def null_event_def bare_event_def long_integer_def py_def replicate_neq)

lemma event_line_simps:
  "prefix (py ''data: '') (event_line d)" "drop 6 (event_line d) = d"
  "\<not> prefix (py ''data: '') (py '': keep-alive'')"
  by (simp_all add: event_line_def py_def)


lemma demo_fragments:
  "event_fragment (choices_json (py ''delta'') (JStr t)) = Some t"
  "event_fragment (choices_json (py ''delta'') JNull) = None"
  "event_fragment (JObj [(py ''choices'', JArr [JObj []])]) = Some []"
  by (simp_all add: event_fragment_def choices_fragment_def delta_fragment_def lacks_choices_def
      empty_choices_def choices_json_def)

lemma demo_json_loads: "json_loads (demo_env b ls) = demo_loads"
  by (simp add: demo_env_def)

lemma demo_send: "http_send (demo_env b ls) sent r = Inr (demo_response b ls)"
  by (simp add: demo_env_def)

lemma demo_response_simps:
  "resp_status (demo_response b ls) = 200" "resp_text (demo_response b ls) = b"
  "resp_lines (demo_response b ls) = map Inr ls"
  by (simp_all add: demo_response_def)

lemma demo_payloads:
  "sse_payloads demo_stream = [hel_event, py ''not json'', bare_event, lo_event]"
  "sse_payloads padded_stream = [hi_event]"
  "sse_payloads null_content_stream = [hel_event, null_event, lo_event]"
  "sse_payloads long_integer_stream = [hel_event, long_integer, lo_event]"
  by (simp_all add: demo_stream_def padded_stream_def null_content_stream_def
      long_integer_stream_def sse_payloads_Cons event_line_simps not_sentinel)
     (simp_all add: sse_payloads_def)

lemma demo_shapes:
  "well_shaped (demo_env b ls) hel_event" "well_shaped (demo_env b ls) lo_event"
  "well_shaped (demo_env b ls) hi_event" "well_shaped (demo_env b ls) bare_event"
  "well_shaped (demo_env b ls) (py ''not json'')"
  "\<not> well_shaped (demo_env b ls) null_event" "\<not> well_shaped (demo_env b ls) long_integer"
  by (simp_all add: well_shaped_def demo_json_loads demo_decodes demo_fragments)

lemma demo_fragment_of:
  "fragment_of (demo_env b ls) hel_event = py ''Hel''"
  "fragment_of (demo_env b ls) lo_event = py ''lo''"
  "fragment_of (demo_env b ls) hi_event = py '' Hi''"
  "fragment_of (demo_env b ls) bare_event = []"
  "fragment_of (demo_env b ls) null_event = []"
  "fragment_of (demo_env b ls) long_integer = []"
  "fragment_of (demo_env b ls) (py ''not json'') = []"
  by (simp_all add: fragment_of_def demo_json_loads demo_decodes demo_fragments)

lemma demo_accumulated:
  "accumulated (demo_env b ls) demo_stream = py ''Hello''"
  "accumulated (demo_env b ls) padded_stream = py '' Hi''"
  "accumulated (demo_env b ls) null_content_stream = py ''Hello''"
  "accumulated (demo_env b ls) long_integer_stream = py ''Hello''"
  by (simp_all add: accumulated_def demo_payloads demo_fragment_of) (simp_all add: py_def)

lemma strip_examples:
  "py_strip (py ''Hello'') = py ''Hello''" "py_strip (py '' Hi'') = py ''Hi''"
  "py_strip (py '' Hello! '') = py ''Hello!''"
  by (simp_all add: py_strip_def strip_where_def py_isspace_def py_def)

lemma py_Cons: "py (c # s) \<noteq> []"
  by (simp add: py_def)

lemma plain_key: "api_key (plain_service demo_settings) \<noteq> []"
  by (simp add: plain_service_def init_service_def demo_settings_def py_def)

lemma demo_stream_replies:
  "stream_reply (demo_env b ls) (demo_response b' demo_stream) = Inr (py ''Hello'')"
  "stream_reply (demo_env b ls) (demo_response b' padded_stream) = Inr (py ''Hi'')"
proof -
  have wd: "list_all (well_shaped (demo_env b ls)) (sse_payloads demo_stream)"
    and wp: "list_all (well_shaped (demo_env b ls)) (sse_payloads padded_stream)"
    by (simp_all add: demo_payloads demo_shapes)
  show "stream_reply (demo_env b ls) (demo_response b' demo_stream) = Inr (py ''Hello'')"
    using stream_loop_well_shaped [OF wd, of "[]"]
    by (simp add: stream_reply_def raise_for_status_def seq_simps demo_response_simps
        demo_accumulated strip_examples py_Cons)
  show "stream_reply (demo_env b ls) (demo_response b' padded_stream) = Inr (py ''Hi'')"
    using stream_loop_well_shaped [OF wp, of "[]"]
    by (simp add: stream_reply_def raise_for_status_def seq_simps demo_response_simps
        demo_accumulated strip_examples py_Cons)
qed









lemma demo_stream_generated:
  "fst (generate_response (demo_env [] demo_stream) (plain_service demo_settings) [] ms True) =
     Inr (py ''Hello'')"
  using generate_response_stream_reply [OF plain_key, of "demo_env [] demo_stream" "[]" ms
      "demo_response [] demo_stream"]
  by (simp add: demo_send demo_stream_replies)











subsection \<open>The HTTP-Referer header\<close>

text \<open>
  The service that \<open>__init__\<close> builds has a header value that is not a string. With a
  client that refuses such a request, as httpx does, no request of the service is ever
  answered: with a key configured, every call of \<open>generate_response\<close> returns the generic
  error text and every generated title is that text cut to 47 characters and \<open>...\<close>.
\<close>

lemma init_service_headers: "\<not> string_headers (completions_request (init_service st) c pl)"
  by (simp add: string_headers_def completions_request_def init_service_def)

lemma plain_service_headers: "string_headers (completions_request (plain_service st) c pl)"
  by (simp add: string_headers_def completions_request_def plain_service_def)

lemma header_slip:
  assumes "refuses_other_headers env" and "openrouter_api_key st \<noteq> []"
  shows "generate_response env (init_service st) sent messages stream =
           (Inr generic_text,
            sent @ [completions_request (init_service st) (if stream then Stream else Post)
                      (make_payload (init_service st) messages stream)])"
proof -
  have refused: "http_send env sent (completions_request (init_service st) c pl) = Inl TypeError"
    for c pl
    using assms(1) init_service_headers [of st c pl]
    by (auto simp add: refuses_other_headers_def)
  have key: "api_key (init_service st) \<noteq> []"
    using assms(2) by (simp add: init_service_def)
  show ?thesis
    by (simp add: generate_response_def provider_call_def get_complete_response_def
        stream_response_def refused key seq_simps)
qed

lemma header_slip_title:
  assumes "refuses_other_headers env" and "openrouter_api_key st \<noteq> []"
  shows "fst (generate_chat_title env (init_service st) sent first_message) =
           Inr (py ''I encountered an unexpected error. Please try a...'')"
  by (simp add: generate_chat_title_def header_slip [OF assms] title_from_def generic_text_def
      py_strip_chars_def strip_where_def single_quote_def double_quote_def py_def)

section \<open>Properties of the store and of the routes\<close>

text \<open>
  C7, as amended. For every handler behind \<open>get_current_user_dependency\<close>, and for
  \<open>GET /auth/me\<close>, which does the same steps itself: when the verification of the token
  fails, the response is 401 \<open>Invalid token\<close>; when the token is valid and its subject has
  no user record, the response is 404 \<open>User not found\<close>; in both cases the handler is not
  run and nothing changes. Only when both steps succeed is the handler run, with the
  user found.
\<close>

theorem protected_endpoint_outcomes:
  "(verify_token credentials = None \<longrightarrow>
      with_current_user verify_token credentials w handler =
        (Inl (HTTPException 401 (py ''Invalid token'')), w) \<and>
      get_current_user verify_token (w_db w) credentials =
        Inl (HTTPException 401 (py ''Invalid token''))) \<and>
   (verify_token credentials = Some email \<longrightarrow> get_user_by_email (w_db w) email = None \<longrightarrow>
      with_current_user verify_token credentials w handler =
        (Inl (HTTPException 404 (py ''User not found'')), w) \<and>
      get_current_user verify_token (w_db w) credentials =
        Inl (HTTPException 404 (py ''User not found''))) \<and>
   (verify_token credentials = Some email \<longrightarrow> get_user_by_email (w_db w) email = Some u \<longrightarrow>
      with_current_user verify_token credentials w handler = handler (to_user_response u) w \<and>
      get_current_user verify_token (w_db w) credentials = Inr (to_user_response u))"
  by (simp add: with_current_user_def get_current_user_dependency_def get_current_user_def)

lemma demo_tokens:
  "demo_verify (py ''bad-token'') = None"
  "demo_verify (py ''stale-token'') = Some (py ''gone@x.com'')"
  "demo_verify (py ''good-token'') = Some (py ''a@x.com'')"
  by (simp_all add: demo_verify_def py_def)

lemma demo_lookup:
  "get_user_by_email demo_db (py ''gone@x.com'') = None"
  "get_user_by_email demo_db (py ''a@x.com'') = Some demo_user"
  by (simp_all add: get_user_by_email_def demo_db_def demo_user_def py_def)

theorem protected_endpoint_outcomes_witness:
  "with_current_user demo_verify (py ''bad-token'') \<lparr>w_db = demo_db, w_sent = []\<rparr>
      (\<lambda>u w. get_session_messages_route w 1 u) =
     (Inl (HTTPException 401 (py ''Invalid token'')), \<lparr>w_db = demo_db, w_sent = []\<rparr>) \<and>
   with_current_user demo_verify (py ''stale-token'') \<lparr>w_db = demo_db, w_sent = []\<rparr>
      (\<lambda>u w. get_session_messages_route w 1 u) =
     (Inl (HTTPException 404 (py ''User not found'')), \<lparr>w_db = demo_db, w_sent = []\<rparr>) \<and>
   with_current_user demo_verify (py ''good-token'') \<lparr>w_db = demo_db, w_sent = []\<rparr>
      (\<lambda>u w. get_session_messages_route w 1 u) =
     get_session_messages_route \<lparr>w_db = demo_db, w_sent = []\<rparr> 1 (to_user_response demo_user)"
  using
    protected_endpoint_outcomes [where verify_token = demo_verify
      and credentials = "py ''bad-token''" and w = "\<lparr>w_db = demo_db, w_sent = []\<rparr>"
      and handler = "\<lambda>u w. get_session_messages_route w 1 u"]
    protected_endpoint_outcomes [where verify_token = demo_verify
      and credentials = "py ''stale-token''" and email = "py ''gone@x.com''"
      and w = "\<lparr>w_db = demo_db, w_sent = []\<rparr>"
      and handler = "\<lambda>u w. get_session_messages_route w 1 u"]
    protected_endpoint_outcomes [where verify_token = demo_verify
      and credentials = "py ''good-token''" and email = "py ''a@x.com''"
      and w = "\<lparr>w_db = demo_db, w_sent = []\<rparr>" and u = demo_user
      and handler = "\<lambda>u w. get_session_messages_route w 1 u"]
  by (simp add: demo_tokens demo_lookup)

text \<open>
  C7 as stated fails: a valid token whose subject has no user record gets 404
  \<open>User not found\<close>, which is a not-found outcome and not the unauthenticated one.
\<close>

theorem stale_subject_not_found_counterexample:
  "demo_verify (py ''stale-token'') = Some (py ''gone@x.com'') \<and>
   get_user_by_email demo_db (py ''gone@x.com'') = None \<and>
   fst (with_current_user demo_verify (py ''stale-token'') \<lparr>w_db = demo_db, w_sent = []\<rparr>
          (\<lambda>u w. get_session_messages_route w 1 u)) =
     Inl (HTTPException 404 (py ''User not found'')) \<and>
   \<not> unauthenticated (HTTPException 404 (py ''User not found''))"
  by (simp add: demo_tokens demo_lookup with_current_user_def get_current_user_dependency_def
      unauthenticated_def)

text \<open>
  C9. A registration whose email no user has succeeds: the response carries the new id
  and the email, and the store has exactly one user more, the new one with the name, the
  hashed password and the email of the payload. A registration with the same email after
  it fails with 400 \<open>Email already registered\<close> and leaves the store as it was.
\<close>

theorem register_once:
  assumes "get_user_by_email d (uc_email uc) = None"
      and "uc_email uc' = uc_email uc"
  shows "register h d now uc =
           (Inr \<lparr>ar_success = True, ar_message = py ''User registered successfully'',
                 ar_data = Some [(py ''user_id'', JNum (fresh_id (map u_id (db_users d)))),
                                 (py ''email'', JStr (uc_email uc))]\<rparr>,
            d\<lparr>db_users := db_users d @
                 [\<lparr>u_id = fresh_id (map u_id (db_users d)), u_email = uc_email uc,
                   u_name = uc_name uc, u_hashed_password = h (uc_password uc),
                   u_is_active = True, u_created_at = now\<rparr>]\<rparr>) \<and>
         length (db_users (snd (register h d now uc))) = Suc (length (db_users d)) \<and>
         register h (snd (register h d now uc)) now' uc' =
           (Inl (HTTPException 400 (py ''Email already registered'')), snd (register h d now uc))"
proof -
  let ?new = "\<lparr>u_id = fresh_id (map u_id (db_users d)), u_email = uc_email uc,
                u_name = uc_name uc, u_hashed_password = h (uc_password uc),
                u_is_active = True, u_created_at = now\<rparr>"
  let ?d1 = "d\<lparr>db_users := db_users d @ [?new]\<rparr>"
  have first: "register h d now uc =
      (Inr \<lparr>ar_success = True, ar_message = py ''User registered successfully'',
            ar_data = Some [(py ''user_id'', JNum (fresh_id (map u_id (db_users d)))),
                            (py ''email'', JStr (uc_email uc))]\<rparr>, ?d1)"
    using assms(1) by (simp add: register_def create_user_def Let_def)
  have found: "get_user_by_email ?d1 (uc_email uc') \<noteq> None"
  proof -
    have "?new \<in> set (db_users ?d1)"
      by simp
    moreover have "u_email ?new = uc_email uc'"
      using assms(2) by simp
    ultimately show ?thesis
      unfolding get_user_by_email_def find_None_iff by blast
  qed
  then have second: "register h ?d1 now' uc' =
      (Inl (HTTPException 400 (py ''Email already registered'')), ?d1)"
    by (auto simp add: register_def)
  show ?thesis
    using second by (simp add: first)
qed

theorem register_once_witness:
  "get_user_by_email demo_db (py ''b@x.com'') = None \<and>
   length (db_users (snd (register (\<lambda>p. py ''hashed:'' @ p) demo_db 5
      \<lparr>uc_email = py ''b@x.com'', uc_name = py ''B'', uc_password = py ''secret''\<rparr>))) = 2 \<and>
   fst (register (\<lambda>p. py ''hashed:'' @ p)
      (snd (register (\<lambda>p. py ''hashed:'' @ p) demo_db 5
         \<lparr>uc_email = py ''b@x.com'', uc_name = py ''B'', uc_password = py ''secret''\<rparr>)) 6
      \<lparr>uc_email = py ''b@x.com'', uc_name = py ''Bee'', uc_password = py ''other''\<rparr>) =
     Inl (HTTPException 400 (py ''Email already registered''))"
proof -
  have none: "get_user_by_email demo_db (py ''b@x.com'') = None"
    by (simp add: get_user_by_email_def demo_db_def demo_user_def py_def)
  have same: "uc_email \<lparr>uc_email = py ''b@x.com'', uc_name = py ''Bee'', uc_password = py ''other''\<rparr> =
      uc_email \<lparr>uc_email = py ''b@x.com'', uc_name = py ''B'', uc_password = py ''secret''\<rparr>"
    by simp
  have len: "length (db_users demo_db) = 1"
    by (simp add: demo_db_def)
  have none': "get_user_by_email demo_db
      (uc_email \<lparr>uc_email = py ''b@x.com'', uc_name = py ''B'', uc_password = py ''secret''\<rparr>) = None"
    using none by simp
  note r = register_once [OF none' same, of "\<lambda>p. py ''hashed:'' @ p" 5 6]
  show ?thesis
    using none r [THEN conjunct2, THEN conjunct1] r [THEN conjunct2, THEN conjunct2] len
    by simp
qed

lemma add_message_fst:
  "fst (add_message_to_session d now sid c r) =
     \<lparr>m_id = fresh_id (map m_id (db_messages d)), m_session_id = sid, m_content = c,
      m_sender_type = r, m_created_at = now\<rparr>"
  by (simp add: add_message_to_session_def Let_def split: option.splits)

lemma add_message_messages:
  "db_messages (snd (add_message_to_session d now sid c r)) =
     db_messages d @ [fst (add_message_to_session d now sid c r)]"
  by (simp add: add_message_to_session_def Let_def split: option.splits)

lemma find_map_update:
  "find (\<lambda>s. s_id s = k) (map (\<lambda>s. if s_id s = sid then upd s else s) xs) =
     (if k = sid then map_option upd (find (\<lambda>s. s_id s = sid) xs)
      else find (\<lambda>s. s_id s = k) xs)"
  if "\<And>s. s_id (upd s) = s_id s"
  using that by (induction xs) auto

lemma add_message_sessions:
  "get_session_by_id (snd (add_message_to_session d now sid c r)) k =
     (if k = sid then map_option (\<lambda>s. s\<lparr>s_updated_at := now\<rparr>) (get_session_by_id d sid)
      else get_session_by_id d k)"
proof (cases "get_session_by_id d sid")
  case None
  then show ?thesis
    by (simp add: add_message_to_session_def Let_def get_session_by_id_def)
next
  case (Some s)
  then show ?thesis
    by (simp add: add_message_to_session_def Let_def get_session_by_id_def find_map_update)
qed

lemma add_messages_messages:
  "add_messages d sid items = (new, d') \<Longrightarrow>
   db_messages d' = db_messages d @ new \<and>
   map (\<lambda>m. (m_created_at m, m_content m, m_sender_type m)) new = items \<and>
   filter (\<lambda>m. m_session_id m = sid) new = new"
proof (induction items arbitrary: d new d')
  case Nil
  then show ?case by simp
next
  case (Cons item items)
  obtain now c r where item: "item = (now, c, r)"
    by (cases item)
  obtain m d1 where step: "add_message_to_session d now sid c r = (m, d1)"
    by (cases "add_message_to_session d now sid c r")
  obtain ms d2 where rest: "add_messages d1 sid items = (ms, d2)"
    by (cases "add_messages d1 sid items")
  from Cons.prems item step rest have new: "new = m # ms" and d': "d' = d2"
    by simp_all
  from add_message_fst [of d now sid c r] step
  have m: "m = \<lparr>m_id = fresh_id (map m_id (db_messages d)), m_session_id = sid, m_content = c,
      m_sender_type = r, m_created_at = now\<rparr>"
    by simp
  from add_message_messages [of d now sid c r] step
  have d1: "db_messages d1 = db_messages d @ [m]"
    by simp
  from Cons.IH [OF rest] new d' d1 m item show ?case
    by simp
qed

text \<open>
  C8. After N messages were appended to a session with \<open>add_message_to_session\<close>, the
  store holds the N new messages after the old ones, each with the session's id, and the
  list of the session's messages holds the stored messages of that session, old and new,
  each exactly once, ordered by creation time, oldest first. When the store held no
  message of the session, the list holds exactly the N new messages, and when the clock
  did not go back between the appends they come in the order of the appends. The list of
  any other session is unchanged. An append sets \<open>updated_at\<close> of the session with that
  id to the time of the append and leaves every other session as it was.
\<close>

theorem appended_messages_listed:
  assumes "add_messages d sid items = (new, d')"
  shows "length new = length items \<and>
         map (\<lambda>m. (m_created_at m, m_content m, m_sender_type m)) new = items \<and>
         list_all (\<lambda>m. m_session_id m = sid) new \<and>
         db_messages d' = db_messages d @ new \<and>
         mset (get_session_messages d' sid) =
           mset (filter (\<lambda>m. m_session_id m = sid) (db_messages d)) + mset new \<and>
         sorted (map m_created_at (get_session_messages d' sid)) \<and>
         (list_all (\<lambda>m. m_session_id m \<noteq> sid) (db_messages d) \<longrightarrow>
            mset (get_session_messages d' sid) = mset new \<and>
            length (get_session_messages d' sid) = length items \<and>
            (sorted (map fst items) \<longrightarrow> get_session_messages d' sid = new)) \<and>
         (k \<noteq> sid \<longrightarrow> get_session_messages d' k = get_session_messages d k) \<and>
         get_session_by_id (snd (add_message_to_session d now sid c r)) k =
           (if k = sid
            then map_option (\<lambda>s. s\<lparr>s_updated_at := now\<rparr>) (get_session_by_id d sid)
            else get_session_by_id d k)"
proof -
  note props = add_messages_messages [OF assms]
  from props have msgs: "db_messages d' = db_messages d @ new"
    and fields: "map (\<lambda>m. (m_created_at m, m_content m, m_sender_type m)) new = items"
    and mine: "filter (\<lambda>m. m_session_id m = sid) new = new"
    by simp_all
  from fields have len: "length new = length items"
    by (metis length_map)
  from fields have times: "map m_created_at new = map fst items"
    by (metis (mono_tags, lifting) list.map_comp map_eq_conv comp_apply fst_conv)
  from mine have all_mine: "list_all (\<lambda>m. m_session_id m = sid) new"
    by (metis filter_id_conv list_all_iff)
  have listed: "get_session_messages d' sid =
      sort_key m_created_at (filter (\<lambda>m. m_session_id m = sid) (db_messages d) @ new)"
    by (simp add: get_session_messages_def msgs mine)
  have bag: "mset (get_session_messages d' sid) =
      mset (filter (\<lambda>m. m_session_id m = sid) (db_messages d)) + mset new"
    by (simp add: listed)
  have ordered: "sorted (map m_created_at (get_session_messages d' sid))"
    by (simp add: get_session_messages_def)
  have fresh: "get_session_messages d' sid = sort_key m_created_at new"
    if "list_all (\<lambda>m. m_session_id m \<noteq> sid) (db_messages d)"
  proof -
    from that have "filter (\<lambda>m. m_session_id m = sid) (db_messages d) = []"
      by (simp add: list_all_iff filter_empty_conv)
    then show ?thesis
      by (simp add: listed)
  qed
  have only: "mset (get_session_messages d' sid) = mset new"
    if "list_all (\<lambda>m. m_session_id m \<noteq> sid) (db_messages d)"
    using fresh [OF that] by simp
  have counted: "length (get_session_messages d' sid) = length items"
    if "list_all (\<lambda>m. m_session_id m \<noteq> sid) (db_messages d)"
    using fresh [OF that] len by simp
  have in_order: "get_session_messages d' sid = new"
    if "list_all (\<lambda>m. m_session_id m \<noteq> sid) (db_messages d)" "sorted (map fst items)"
    using fresh [OF that(1)] that(2) times by (simp add: sort_key_id_if_sorted)
  have others: "get_session_messages d' k = get_session_messages d k" if "k \<noteq> sid"
  proof -
    from all_mine that have "filter (\<lambda>m. m_session_id m = k) new = []"
      by (auto simp add: list_all_iff filter_empty_conv)
    then show ?thesis
      by (simp add: get_session_messages_def msgs)
  qed
  note stamp = add_message_sessions [of d now sid c r k]
  from len fields all_mine msgs bag ordered only counted in_order others stamp show ?thesis
    by blast
qed

text \<open>
  C6. Take a store in which the session does not exist and a store in which it belongs
  to another user. On both, each of the four session-scoped handlers (list messages,
  send message, stream message, delete session) answers the caller with the same 404
  \<open>Chat session not found\<close> and changes nothing; no handler answers with a forbidden
  outcome.
\<close>

theorem foreign_or_missing_session_not_found:
  assumes "get_session_by_id (w_db w1) sid = None"
      and "get_session_by_id (w_db w2) sid = Some s"
      and "s_user_id s \<noteq> ur_id u"
  shows "get_session_messages_route w1 sid u = (Inl session_not_found, w1) \<and>
         get_session_messages_route w2 sid u = (Inl session_not_found, w2) \<and>
         send_message env svc t_user t_bot w1 sid message u = (Inl session_not_found, w1) \<and>
         send_message env svc t_user t_bot w2 sid message u = (Inl session_not_found, w2) \<and>
         send_message_stream env svc t_user t_bot w1 sid message u = (Inl session_not_found, w1) \<and>
         send_message_stream env svc t_user t_bot w2 sid message u = (Inl session_not_found, w2) \<and>
         delete_chat_session w1 sid u = (Inl session_not_found, w1) \<and>
         delete_chat_session w2 sid u = (Inl session_not_found, w2) \<and>
         session_not_found = HTTPException 404 (py ''Chat session not found'')"
  using assms
  by (simp add: get_session_messages_route_def send_message_def send_message_stream_def
      delete_chat_session_def session_not_found_def)

lemma update_session_title_messages:
  "db_messages (snd (update_session_title d sid title)) = db_messages d"
  by (simp add: update_session_title_def split: option.splits)

lemma title_step_messages:
  "db_messages (fst (title_step env svc d sent sid previous message)) = db_messages d"
  by (simp add: title_step_def update_session_title_messages split: prod.splits sum.splits)

lemma title_step_sender_type:
  "title_step env svc d sent sid previous (message\<lparr>cm_sender_type := other\<rparr>) =
     title_step env svc d sent sid previous message"
  by (simp add: title_step_def)

lemma send_message_messages:
  assumes "get_session_by_id (w_db w) sid = Some s" and "s_user_id s = ur_id u"
  shows "\<exists>rest. db_messages (w_db (snd (send_message env svc t_user t_bot w sid message u))) =
           db_messages (w_db w) @
           \<lparr>m_id = fresh_id (map m_id (db_messages (w_db w))), m_session_id = sid,
             m_content = cm_content message, m_sender_type = py ''user'',
             m_created_at = t_user\<rparr> # rest \<and>
           list_all (\<lambda>m. m_sender_type m = py ''bot'') rest"
proof -
  obtain um d1 where a: "add_message_to_session (w_db w) t_user sid (cm_content message)
      (py ''user'') = (um, d1)"
    by (cases "add_message_to_session (w_db w) t_user sid (cm_content message) (py ''user'')")
  obtain d2 sent2 where t: "title_step env svc d1 (w_sent w) sid (get_session_messages d1 sid)
      message = (d2, sent2)"
    by (cases "title_step env svc d1 (w_sent w) sid (get_session_messages d1 sid) message")
  obtain r sent3 where g: "generate_response env svc sent2
      (format_messages_for_api (get_session_messages d1 sid)) False = (r, sent3)"
    by (cases "generate_response env svc sent2
      (format_messages_for_api (get_session_messages d1 sid)) False")
  from add_message_fst [of "w_db w" t_user sid "cm_content message" "py ''user''"] a
  have um: "um = \<lparr>m_id = fresh_id (map m_id (db_messages (w_db w))), m_session_id = sid,
      m_content = cm_content message, m_sender_type = py ''user'', m_created_at = t_user\<rparr>"
    by simp
  from add_message_messages [of "w_db w" t_user sid "cm_content message" "py ''user''"] a
  have d1: "db_messages d1 = db_messages (w_db w) @ [um]"
    by simp
  from title_step_messages [of env svc d1 "w_sent w" sid "get_session_messages d1 sid" message] t
  have d2: "db_messages d2 = db_messages d1"
    by simp
  show ?thesis
  proof (cases r)
    case (Inl e)
    with assms a t g d1 d2 um show ?thesis
      by (simp add: send_message_def)
  next
    case (Inr reply)
    obtain am d3 where b: "add_message_to_session d2 t_bot sid reply (py ''bot'') = (am, d3)"
      by (cases "add_message_to_session d2 t_bot sid reply (py ''bot'')")
    from add_message_fst [of d2 t_bot sid reply "py ''bot''"] b
    have am: "m_sender_type am = py ''bot''"
      by simp
    from add_message_messages [of d2 t_bot sid reply "py ''bot''"] b
    have d3: "db_messages d3 = db_messages d2 @ [am]"
      by simp
    from Inr assms a t g b d1 d2 d3 um am show ?thesis
      by (simp add: send_message_def)
  qed
qed

lemma send_message_stream_messages:
  assumes "get_session_by_id (w_db w) sid = Some s" and "s_user_id s = ur_id u"
  shows "\<exists>rest. db_messages (w_db (snd (send_message_stream env svc t_user t_bot w sid message u))) =
           db_messages (w_db w) @
           \<lparr>m_id = fresh_id (map m_id (db_messages (w_db w))), m_session_id = sid,
             m_content = cm_content message, m_sender_type = py ''user'',
             m_created_at = t_user\<rparr> # rest \<and>
           list_all (\<lambda>m. m_sender_type m = py ''bot'') rest"
proof -
  obtain um d1 where a: "add_message_to_session (w_db w) t_user sid (cm_content message)
      (py ''user'') = (um, d1)"
    by (cases "add_message_to_session (w_db w) t_user sid (cm_content message) (py ''user'')")
  obtain d2 sent2 where t: "title_step env svc d1 (w_sent w) sid (get_session_messages d1 sid)
      message = (d2, sent2)"
    by (cases "title_step env svc d1 (w_sent w) sid (get_session_messages d1 sid) message")
  obtain r sent3 where g: "generate_response env svc sent2
      (format_messages_for_api (get_session_messages d1 sid)) True = (r, sent3)"
    by (cases "generate_response env svc sent2
      (format_messages_for_api (get_session_messages d1 sid)) True")
  from add_message_fst [of "w_db w" t_user sid "cm_content message" "py ''user''"] a
  have um: "um = \<lparr>m_id = fresh_id (map m_id (db_messages (w_db w))), m_session_id = sid,
      m_content = cm_content message, m_sender_type = py ''user'', m_created_at = t_user\<rparr>"
    by simp
  from add_message_messages [of "w_db w" t_user sid "cm_content message" "py ''user''"] a
  have d1: "db_messages d1 = db_messages (w_db w) @ [um]"
    by simp
  from title_step_messages [of env svc d1 "w_sent w" sid "get_session_messages d1 sid" message] t
  have d2: "db_messages d2 = db_messages d1"
    by simp
  show ?thesis
  proof (cases r)
    case (Inl e)
    with assms a t g d1 d2 um show ?thesis
      by (simp add: send_message_stream_def generate_stream_def)
  next
    case (Inr reply)
    obtain am d3 where b: "add_message_to_session d2 t_bot sid reply (py ''bot'') = (am, d3)"
      by (cases "add_message_to_session d2 t_bot sid reply (py ''bot'')")
    from add_message_fst [of d2 t_bot sid reply "py ''bot''"] b
    have am: "m_sender_type am = py ''bot''"
      by simp
    from add_message_messages [of d2 t_bot sid reply "py ''bot''"] b
    have d3: "db_messages d3 = db_messages d2 @ [am]"
      by simp
    from Inr assms a t g b d1 d2 d3 um am show ?thesis
      by (simp add: send_message_stream_def generate_stream_def)
  qed
qed

text \<open>
  C10. When the session exists and belongs to the caller, \<open>send_message\<close> and
  \<open>send_message_stream\<close> add the incoming message to the store with the sender
  \<open>user\<close>, the content of the request and the session's id; whatever else they add has
  the sender \<open>bot\<close>. The \<open>sender_type\<close> of the request body has no effect on the response
  or on the store.
\<close>

theorem incoming_message_stored_as_user:
  assumes "get_session_by_id (w_db w) sid = Some s" and "s_user_id s = ur_id u"
  shows "(\<exists>rest. db_messages (w_db (snd (send_message env svc t_user t_bot w sid message u))) =
            db_messages (w_db w) @
            \<lparr>m_id = fresh_id (map m_id (db_messages (w_db w))), m_session_id = sid,
              m_content = cm_content message, m_sender_type = py ''user'',
              m_created_at = t_user\<rparr> # rest \<and>
            list_all (\<lambda>m. m_sender_type m = py ''bot'') rest) \<and>
         (\<exists>rest. db_messages (w_db (snd (send_message_stream env svc t_user t_bot w sid message u))) =
            db_messages (w_db w) @
            \<lparr>m_id = fresh_id (map m_id (db_messages (w_db w))), m_session_id = sid,
              m_content = cm_content message, m_sender_type = py ''user'',
              m_created_at = t_user\<rparr> # rest \<and>
            list_all (\<lambda>m. m_sender_type m = py ''bot'') rest) \<and>
         send_message env svc t_user t_bot w sid (message\<lparr>cm_sender_type := other\<rparr>) u =
           send_message env svc t_user t_bot w sid message u \<and>
         send_message_stream env svc t_user t_bot w sid (message\<lparr>cm_sender_type := other\<rparr>) u =
           send_message_stream env svc t_user t_bot w sid message u"
proof -
  have "send_message env svc t_user t_bot w sid (message\<lparr>cm_sender_type := other\<rparr>) u =
      send_message env svc t_user t_bot w sid message u"
    by (simp add: send_message_def title_step_sender_type Let_def
        split: option.splits prod.splits sum.splits)
  moreover have "send_message_stream env svc t_user t_bot w sid
      (message\<lparr>cm_sender_type := other\<rparr>) u =
      send_message_stream env svc t_user t_bot w sid message u"
    by (simp add: send_message_stream_def generate_stream_def title_step_sender_type Let_def
        split: option.splits prod.splits sum.splits)
  ultimately show ?thesis
    using send_message_messages [OF assms] send_message_stream_messages [OF assms]
    by blast
qed

lemma demo_sessions:
  "get_session_by_id demo_db 1 = Some own_session"
  "get_session_by_id demo_db 7 = Some foreign_session"
  "get_session_by_id (delete_session demo_db foreign_session) 7 = None"
  "s_user_id own_session = ur_id (to_user_response demo_user)"
  "s_user_id foreign_session \<noteq> ur_id (to_user_response demo_user)"
  by (simp_all add: get_session_by_id_def demo_db_def own_session_def foreign_session_def
      delete_session_def to_user_response_def demo_user_def)

theorem foreign_or_missing_session_not_found_witness:
  "get_session_by_id (delete_session demo_db foreign_session) 7 = None \<and>
   get_session_by_id demo_db 7 = Some foreign_session \<and>
   s_user_id foreign_session \<noteq> ur_id (to_user_response demo_user) \<and>
   fst (send_message (demo_env [] []) (init_service demo_settings) 3 4
          \<lparr>w_db = delete_session demo_db foreign_session, w_sent = []\<rparr> 7
          \<lparr>cm_content = py ''Hi'', cm_sender_type = py ''user''\<rparr> (to_user_response demo_user)) =
     Inl (HTTPException 404 (py ''Chat session not found'')) \<and>
   fst (send_message (demo_env [] []) (init_service demo_settings) 3 4
          \<lparr>w_db = demo_db, w_sent = []\<rparr> 7
          \<lparr>cm_content = py ''Hi'', cm_sender_type = py ''user''\<rparr> (to_user_response demo_user)) =
     Inl (HTTPException 404 (py ''Chat session not found''))"
  using foreign_or_missing_session_not_found
    [where ?w1.0 = "\<lparr>w_db = delete_session demo_db foreign_session, w_sent = []\<rparr>"
       and ?w2.0 = "\<lparr>w_db = demo_db, w_sent = []\<rparr>" and sid = 7 and s = foreign_session
       and u = "to_user_response demo_user" and env = "demo_env [] []"
       and svc = "init_service demo_settings" and t_user = 3 and t_bot = 4
       and message = "\<lparr>cm_content = py ''Hi'', cm_sender_type = py ''user''\<rparr>"]
  by (simp add: demo_sessions)

theorem incoming_message_stored_as_user_witness:
  "get_session_by_id demo_db 1 = Some own_session \<and>
   s_user_id own_session = ur_id (to_user_response demo_user) \<and>
   (\<exists>rest. db_messages (w_db (snd (send_message (demo_env [] []) (init_service demo_settings) 3 4
               \<lparr>w_db = demo_db, w_sent = []\<rparr> 1
               \<lparr>cm_content = py ''Hi'', cm_sender_type = py ''bot''\<rparr>
               (to_user_response demo_user)))) =
            \<lparr>m_id = 1, m_session_id = 1, m_content = py ''Hi'', m_sender_type = py ''user'',
              m_created_at = 3\<rparr> # rest)"
  using incoming_message_stored_as_user
    [where w = "\<lparr>w_db = demo_db, w_sent = []\<rparr>" and sid = 1 and s = own_session
       and u = "to_user_response demo_user" and env = "demo_env [] []"
       and svc = "init_service demo_settings" and t_user = 3 and t_bot = 4
       and message = "\<lparr>cm_content = py ''Hi'', cm_sender_type = py ''bot''\<rparr>"]
  by (simp add: demo_sessions) (auto simp add: demo_db_def fresh_id_def)

lemma busy_appends:
  "add_messages busy_db 1 [(3, py ''Hi'', py ''user''), (4, py ''Hello'', py ''bot'')] =
     ([\<lparr>m_id = 2, m_session_id = 1, m_content = py ''Hi'', m_sender_type = py ''user'',
        m_created_at = 3\<rparr>,
       \<lparr>m_id = 3, m_session_id = 1, m_content = py ''Hello'', m_sender_type = py ''bot'',
        m_created_at = 4\<rparr>],
      snd (add_messages busy_db 1 [(3, py ''Hi'', py ''user''), (4, py ''Hello'', py ''bot'')]))"
  by (simp add: add_message_to_session_def get_session_by_id_def busy_db_def demo_db_def
      own_session_def foreign_session_def fresh_id_def Let_def)

lemma busy_sessions:
  "get_session_by_id busy_db 1 = Some own_session"
  "get_session_messages busy_db 7 =
     [\<lparr>m_id = 1, m_session_id = 7, m_content = py ''Other'', m_sender_type = py ''user'',
       m_created_at = 2\<rparr>]"
  "list_all (\<lambda>m. m_session_id m \<noteq> 1) (db_messages busy_db)"
  by (simp_all add: get_session_by_id_def get_session_messages_def busy_db_def demo_db_def
      own_session_def)

theorem appended_messages_listed_witness:
  "list_all (\<lambda>m. m_session_id m \<noteq> 1) (db_messages busy_db) \<and>
   get_session_messages
     (snd (add_messages busy_db 1 [(3, py ''Hi'', py ''user''), (4, py ''Hello'', py ''bot'')])) 1 =
     [\<lparr>m_id = 2, m_session_id = 1, m_content = py ''Hi'', m_sender_type = py ''user'',
       m_created_at = 3\<rparr>,
      \<lparr>m_id = 3, m_session_id = 1, m_content = py ''Hello'', m_sender_type = py ''bot'',
       m_created_at = 4\<rparr>] \<and>
   get_session_messages
     (snd (add_messages busy_db 1 [(3, py ''Hi'', py ''user''), (4, py ''Hello'', py ''bot'')])) 7 =
     [\<lparr>m_id = 1, m_session_id = 7, m_content = py ''Other'', m_sender_type = py ''user'',
       m_created_at = 2\<rparr>] \<and>
   get_session_by_id (snd (add_message_to_session busy_db 3 1 (py ''Hi'') (py ''user''))) 1 =
     Some (own_session\<lparr>s_updated_at := 3\<rparr>)"
  using appended_messages_listed [OF busy_appends, of 7 3 "py ''Hi''" "py ''user''"]
    appended_messages_listed [OF busy_appends, of 1 3 "py ''Hi''" "py ''user''"]
  by (simp add: busy_sessions)

end
